theory Spec2Isabelle
  imports Main
begin

section \<open>JavaScript strings and small library functions\<close>

text \<open>
  Strings are byte lists. The model of the character classes is exact on ASCII text:
  \<open>is_space\<close> is the ASCII part of the JavaScript white space set used by \<open>trim\<close> and by
  the regular expression class \<open>\s\<close>; characters outside ASCII are kept as opaque bytes
  (the arrow, the warning sign and the tree branch of the report lines are written as
  their UTF-8 bytes).
\<close>

definition is_space :: "char \<Rightarrow> bool" where
  "is_space c \<longleftrightarrow> c \<in> set [CHR 0x09, CHR 0x0A, CHR 0x0B, CHR 0x0C, CHR 0x0D, CHR 0x20]"

definition trim :: "string \<Rightarrow> string" where
  "trim s = rev (dropWhile is_space (rev (dropWhile is_space s)))"

text \<open>\<open>Array.prototype.join\<close>.\<close>

fun join :: "string \<Rightarrow> string list \<Rightarrow> string" where
  "join sep [] = []"
| "join sep [x] = x"
| "join sep (x # y # ys) = x @ sep @ join sep (y # ys)"

definition digit_char :: "nat \<Rightarrow> char" where
  "digit_char n = ''0123456789'' ! n"

text \<open>The decimal rendering of a count inside a template string.\<close>

function show_nat :: "nat \<Rightarrow> string" where
  "show_nat n = (if n < 10 then [digit_char n] else show_nat (n div 10) @ [digit_char (n mod 10)])"
  by pat_completeness auto
termination
  by (relation "measure id") auto

declare show_nat.simps [simp del]

definition arrow :: string where
  "arrow = [CHR 0xE2, CHR 0x86, CHR 0x92]"

definition warn_sign :: string where
  "warn_sign = [CHR 0xE2, CHR 0x9A, CHR 0xA0]"

definition branch_sign :: string where
  "branch_sign = [CHR 0xE2, CHR 0x94, CHR 0x94, CHR 0xE2, CHR 0x94, CHR 0x80]"

text \<open>
  A JavaScript \<open>Map\<close> (and an object with string keys) used as a counter keeps its keys in
  the order of their first insertion: an association list updated in place.
\<close>

fun count_incr :: "string \<Rightarrow> (string \<times> nat) list \<Rightarrow> (string \<times> nat) list" where
  "count_incr k [] = [(k, 1)]"
| "count_incr k ((k', n) # m) = (if k = k' then (k', n + 1) # m else (k', n) # count_incr k m)"

definition count_map :: "string list \<Rightarrow> (string \<times> nat) list" where
  "count_map ks = foldl (\<lambda>m k. count_incr k m) [] ks"

definition has :: "(string \<times> 'v) list \<Rightarrow> string \<Rightarrow> bool" where
  "has m k \<longleftrightarrow> k \<in> fst ` set m"

text \<open>
  A plain object (\<open>{}\<close>) inherits the members of \<open>Object.prototype\<close>: reading one of these
  names on an object that has no such key of its own gives the inherited member, not
  \<open>undefined\<close>.
\<close>

definition object_prototype_members :: "string list" where
  "object_prototype_members =
     [''constructor'', ''__defineGetter__'', ''__defineSetter__'', ''hasOwnProperty'',
      ''__lookupGetter__'', ''__lookupSetter__'', ''isPrototypeOf'', ''propertyIsEnumerable'',
      ''toString'', ''valueOf'', ''__proto__'', ''toLocaleString'']"

text \<open>
  \<open>counts[value]\<close> on a counter that is a plain object filled by
  \<open>counts[v] = (counts[v] || 0) + 1\<close>, as far as the test \<open>count > 1\<close> and the template
  read it: \<open>None\<close> where the entry is undefined or not a number. For a value named like a
  member of \<open>Object.prototype\<close> the increment appends to the text of the inherited member
  (for \<open>__proto__\<close> the assignment is ignored), so the entry is never a number and the test
  is false.
\<close>

definition count_of :: "(string \<times> nat) list \<Rightarrow> string \<Rightarrow> nat option" where
  "count_of counts v = (if v \<in> set object_prototype_members then None else map_of counts v)"

section \<open>Exceptions\<close>

text \<open>
  A call that can throw returns a sum: \<open>Inl\<close> the exception. \<open>TypeError\<close> is what calling
  something that is not a function raises (an undefined binding, a missing method); every
  other exception is \<open>Thrown\<close> with its message.
\<close>

datatype error = TypeError | Thrown string

text \<open>\<open>try { body } catch (e) { handler }\<close>.\<close>

definition try_catch :: "error + 'a \<Rightarrow> (error \<Rightarrow> error + 'a) \<Rightarrow> error + 'a" where
  "try_catch body handler = (case body of Inl e \<Rightarrow> handler e | Inr v \<Rightarrow> Inr v)"

section \<open>The PostCSS tree\<close>

text \<open>
  The parsed stylesheet as PostCSS hands it over: a root, rules, at-rules, declarations and
  comments. The parser itself is outside the model; the comparison functions of
  \<open>cssParser.js\<close> are functions of two such trees.
\<close>

datatype node =
    Root "node list"
  | Rule string "node list"
  | AtRule string string "node list"
  | Decl string string
  | Comment string

text \<open>
  \<open>Container.walk\<close>: every descendant in document order, parent before children. The model
  returns each visited node with its chain of ancestors (nearest first), which is what
  following \<open>node.parent\<close> gives.
\<close>

fun walk :: "node list \<Rightarrow> node \<Rightarrow> (node \<times> node list) list" where
  "walk up (Root cs) = concat (map (\<lambda>c. (c, Root cs # up) # walk (Root cs # up) c) cs)"
| "walk up (Rule s cs) = concat (map (\<lambda>c. (c, Rule s cs # up) # walk (Rule s cs # up) c) cs)"
| "walk up (AtRule n p cs) =
     concat (map (\<lambda>c. (c, AtRule n p cs # up) # walk (AtRule n p cs # up) c) cs)"
| "walk up (Decl p v) = []"
| "walk up (Comment t) = []"

fun is_rule :: "node \<Rightarrow> bool" where
  "is_rule (Rule s cs) = True"
| "is_rule n = False"

fun is_decl :: "node \<Rightarrow> bool" where
  "is_decl (Decl p v) = True"
| "is_decl n = False"

fun is_atrule :: "node \<Rightarrow> bool" where
  "is_atrule (AtRule n p cs) = True"
| "is_atrule n = False"

definition walkRules :: "node list \<Rightarrow> node \<Rightarrow> (node \<times> node list) list" where
  "walkRules up ast = filter (\<lambda>(n, anc). is_rule n) (walk up ast)"

text \<open>\<open>walkDecls\<close>, as the list of (prop, value) pairs in document order.\<close>

fun decl_of :: "node \<times> node list \<Rightarrow> (string \<times> string) list" where
  "decl_of (Decl p v, anc) = [(p, v)]"
| "decl_of (n, anc) = []"

definition walkDecls :: "node \<Rightarrow> (string \<times> string) list" where
  "walkDecls ast = concat (map decl_of (walk [] ast))"

section \<open>Selector identity: \<open>buildSelectorPath\<close>\<close>

text \<open>
  One step of the loop \<open>while (current) { ...; current = current.parent }\<close>: a rule with a
  non-empty selector contributes its trimmed selector, an at-rule contributes
  \<open>@name params\<close>, everything else (the root, a rule with an empty selector) nothing.
\<close>

fun path_part :: "node \<Rightarrow> string option" where
  "path_part (Rule s cs) = (if s \<noteq> [] then Some (trim s) else None)"
| "path_part (AtRule n p cs) = Some (''@'' @ n @ '' '' @ p)"
| "path_part n = None"

fun path_loop :: "node list \<Rightarrow> string list \<Rightarrow> string list" where
  "path_loop [] parts = parts"
| "path_loop (current # up) parts =
     path_loop up (case path_part current of Some s \<Rightarrow> s # parts | None \<Rightarrow> parts)"

text \<open>The argument is the rule followed by its ancestors.\<close>

definition buildSelectorPath :: "node list \<Rightarrow> string" where
  "buildSelectorPath chain = join '' > '' (path_loop chain [])"

record sel_entry =
  selector :: string
  fullPath :: string

fun selector_of :: "node \<times> node list \<Rightarrow> sel_entry list" where
  "selector_of (Rule s cs, anc) =
     (if s \<noteq> [] then [\<lparr>selector = trim s, fullPath = buildSelectorPath (Rule s cs # anc)\<rparr>]
      else [])"
| "selector_of (n, anc) = []"

definition extractSelectorsWithContext :: "node \<Rightarrow> sel_entry list" where
  "extractSelectorsWithContext ast = concat (map selector_of (walkRules [] ast))"

subsection \<open>The key in the words of the specification\<close>

text \<open>
  Written from the specification, to compare \<open>buildSelectorPath\<close> with: the texts of a rule
  and its enclosing nodes from the root down to the rule. A rule gives its own selector
  text, trimmed (nothing when it has none), an at-rule gives its name and parameters, and
  the root gives nothing. The specification leaves the concrete writing open; it is the
  one of the code here: an at-rule is written \<open>@\<close>, name, space, parameters, and the path
  separator is \<open>" > "\<close>. The argument is the rule followed by its ancestors, nearest first.
\<close>

fun spec_path_texts :: "node list \<Rightarrow> string list" where
  "spec_path_texts [] = []"
| "spec_path_texts (Rule s cs # up) = spec_path_texts up @ (if s = [] then [] else [trim s])"
| "spec_path_texts (AtRule n p cs # up) = spec_path_texts up @ [''@'' @ n @ '' '' @ p]"
| "spec_path_texts (Root cs # up) = spec_path_texts up"
| "spec_path_texts (Decl p v # up) = spec_path_texts up"
| "spec_path_texts (Comment t # up) = spec_path_texts up"

section \<open>Change records of the stylesheet comparison\<close>

text \<open>
  The comparison functions push template strings onto a list. Each template of the source
  is one constructor here, carrying the values the template interpolates, and \<open>render\<close>
  gives the text the source builds. A count is \<open>None\<close> where the source reads a counter
  that has no entry for the value (\<open>undefined\<close>) or prints none.
\<close>

datatype change =
    SelectorAdded string nat
  | SelectorRemoved string nat
  | PropertyAdded string string "nat option"
  | PropertyRemoved string string "nat option"
  | PropertyChanged string string string "nat option"
  | ChangedToFlexbox string
  | ChangedToGrid string
  | ImplementedFlexbox
  | ImplementedGrid
  | HiddenVia string string "nat option"
  | SubDetail string
  | OverrideDetected string string nat

definition instances_suffix :: "nat \<Rightarrow> string" where
  "instances_suffix count = (if count > 1 then '' ('' @ show_nat count @ '' instances)'' else [])"

text \<open>\<open>count > 1\<close> is false for \<open>undefined\<close>.\<close>

fun elements_suffix :: "nat option \<Rightarrow> string" where
  "elements_suffix None = []"
| "elements_suffix (Some count) =
     (if count > 1 then '' ('' @ show_nat count @ '' elements)'' else [])"

fun render :: "change \<Rightarrow> string" where
  "render (SelectorAdded path count) =
     ''Property added: selector '' @ path @ instances_suffix count"
| "render (SelectorRemoved path count) =
     ''Property removed: selector '' @ path @ instances_suffix count"
| "render (PropertyAdded prop v count) =
     ''Property added: '' @ prop @ '': '' @ v @ elements_suffix count"
| "render (PropertyRemoved prop v count) =
     ''Property removed: '' @ prop @ '': '' @ v @ elements_suffix count"
| "render (PropertyChanged prop x y count) =
     ''Property changed: '' @ prop @ '' from '' @ x @ '' '' @ arrow @ '' '' @ y
       @ elements_suffix count"
| "render (ChangedToFlexbox x) = ''Changed to Flexbox layout (was: '' @ x @ '')''"
| "render (ChangedToGrid x) = ''Changed to CSS Grid layout (was: '' @ x @ '')''"
| "render ImplementedFlexbox = ''Implemented Flexbox layout''"
| "render ImplementedGrid = ''Implemented CSS Grid layout''"
| "render (HiddenVia prop v count) =
     warn_sign @ '' Element hidden via '' @ prop @ '': '' @ v @ elements_suffix count"
| "render (SubDetail t) = ''  '' @ branch_sign @ '' '' @ t"
| "render (OverrideDetected prop sel n) =
     warn_sign @ '' Property override detected: '' @ prop @ '' in '' @ sel
       @ '' ('' @ show_nat n @ '' different values, last wins)''"

section \<open>\<open>compareSelectorsWithContext\<close>\<close>

definition compareSelectorsWithContext :: "node option \<Rightarrow> node option \<Rightarrow> change list" where
  "compareSelectorsWithContext oldAST newAST =
    (let oldSelectors = (case oldAST of None \<Rightarrow> [] | Some a \<Rightarrow> extractSelectorsWithContext a);
         newSelectors = (case newAST of None \<Rightarrow> [] | Some a \<Rightarrow> extractSelectorsWithContext a);
         oldSelectorMap = count_map (map fullPath oldSelectors);
         newSelectorMap = count_map (map fullPath newSelectors)
     in map (\<lambda>e. SelectorAdded (fst e) (snd e))
          (filter (\<lambda>e. \<not> has oldSelectorMap (fst e)) newSelectorMap)
      @ map (\<lambda>e. SelectorRemoved (fst e) (snd e))
          (filter (\<lambda>e. \<not> has newSelectorMap (fst e)) oldSelectorMap))"

section \<open>The value normalizer\<close>

definition is_digit :: "char \<Rightarrow> bool" where
  "is_digit c \<longleftrightarrow> c \<in> set ''0123456789''"

definition is_hex :: "char \<Rightarrow> bool" where
  "is_hex c \<longleftrightarrow> c \<in> set ''0123456789abcdefABCDEF''"

definition upper_letters :: string where
  "upper_letters = ''ABCDEFGHIJKLMNOPQRSTUVWXYZ''"

definition lower_letters :: string where
  "lower_letters = ''abcdefghijklmnopqrstuvwxyz''"

definition lower_char :: "char \<Rightarrow> char" where
  "lower_char c = (case map_of (zip upper_letters lower_letters) c of Some d \<Rightarrow> d | None \<Rightarrow> c)"

definition toLowerCase :: "string \<Rightarrow> string" where
  "toLowerCase s = map lower_char s"

definition startsWith :: "string \<Rightarrow> string \<Rightarrow> bool" where
  "startsWith s p \<longleftrightarrow> take (length p) s = p"

definition digit_val :: "char \<Rightarrow> nat" where
  "digit_val c = (case map_of (zip ''0123456789'' [0, 1, 2, 3, 4, 5, 6, 7, 8, 9]) c of
                    Some d \<Rightarrow> d | None \<Rightarrow> 0)"

text \<open>The value of a string of decimal digits (\<open>parseInt(s, 10)\<close> on such a string).\<close>

definition digits_value :: "string \<Rightarrow> nat" where
  "digits_value s = foldl (\<lambda>acc c. 10 * acc + digit_val c) 0 s"

subsection \<open>\<open>parseFloat(val).toFixed(2)\<close> on an unsigned decimal literal\<close>

text \<open>
  The decimal branch of \<open>normalizeValue\<close> goes through a double. The model is exact
  arithmetic on the fraction \<open>a / b\<close>: \<open>parseFloat\<close> rounds the literal to the nearest
  binary64 value, ties to even, and to \<open>Infinity\<close> from \<open>2^1024 - 2^970\<close> on;
  \<open>toFixed(2)\<close> prints the integer \<open>n\<close> nearest to \<open>100 x\<close> (the larger on a tie)
  with two fraction digits, falls back to \<open>Number::toString\<close> from \<open>10^21\<close> on, and
  prints \<open>Infinity\<close> for the infinite value.
\<close>

function bit_length :: "nat \<Rightarrow> nat" where
  "bit_length n = (if n = 0 then 0 else Suc (bit_length (n div 2)))"
  by pat_completeness auto
termination
  by (relation "measure id") auto

declare bit_length.simps [simp del]

text \<open>The largest \<open>e\<close> with \<open>2^e \<le> a / b\<close>, for positive \<open>a\<close> and \<open>b\<close>.\<close>

definition floor_log2 :: "nat \<Rightarrow> nat \<Rightarrow> int" where
  "floor_log2 a b =
     (let e0 = int (bit_length a) - int (bit_length b) in
      if (if e0 \<ge> 0 then a \<ge> b * 2 ^ nat e0 else a * 2 ^ nat (- e0) \<ge> b) then e0 else e0 - 1)"

definition round_half_even :: "nat \<Rightarrow> nat \<Rightarrow> nat" where
  "round_half_even num den =
     (let q = num div den; r = num mod den in
      if 2 * r < den then q
      else if 2 * r > den then q + 1
      else if even q then q else q + 1)"

text \<open>A non-negative double: a fraction with a power of two below, or the infinite value.\<close>

datatype number = Finite nat nat | Infinity

definition to_double :: "nat \<Rightarrow> nat \<Rightarrow> number" where
  "to_double a b =
     (if a = 0 then Finite 0 1
      else let pe = max (floor_log2 a b) (- 1022);
               sh = pe - 52;
               m = (if sh \<ge> 0 then round_half_even a (b * 2 ^ nat sh)
                    else round_half_even (a * 2 ^ nat (- sh)) b)
           in if sh \<ge> 0 then
                (if m * 2 ^ nat sh \<ge> 2 ^ 1024 then Infinity else Finite (m * 2 ^ nat sh) 1)
              else Finite m (2 ^ nat (- sh)))"

definition is_double_of :: "nat \<Rightarrow> nat \<Rightarrow> bool" where
  "is_double_of x v \<longleftrightarrow> to_double v 1 = Finite x 1"

definition strip_zeros :: "string \<Rightarrow> string" where
  "strip_zeros s = rev (dropWhile (\<lambda>c. c = CHR ''0'') (rev s))"

definition exponent_form :: "nat \<Rightarrow> string" where
  "exponent_form v =
     (let ds = strip_zeros (show_nat v); n = length (show_nat v) in
      (case ds of [] \<Rightarrow> [] | [c] \<Rightarrow> [c] | c # cs \<Rightarrow> c # CHR ''.'' # cs)
      @ ''e+'' @ show_nat (n - 1))"

text \<open>
  \<open>Number::toString\<close> on an integer double \<open>x \<ge> 10^21\<close>: the decimal with the fewest
  significant digits that reads back as \<open>x\<close> (the nearer to \<open>x\<close> of the two candidates
  of that length, the even one on a tie), in exponent notation.
\<close>

fun shortest_from :: "nat \<Rightarrow> nat \<Rightarrow> nat \<Rightarrow> string" where
  "shortest_from 0 k x = show_nat x"
| "shortest_from (Suc fuel) k x =
     (let d = length (show_nat x);
          p = 10 ^ (d - k);
          s1 = x div p; v1 = s1 * p; v2 = (s1 + 1) * p;
          ok1 = is_double_of x v1; ok2 = is_double_of x v2
      in if ok1 \<and> ok2 then
           exponent_form (if x - v1 < v2 - x then v1
                          else if v2 - x < x - v1 then v2
                          else if even s1 then v1 else v2)
         else if ok1 then exponent_form v1
         else if ok2 then exponent_form v2
         else shortest_from fuel (k + 1) x)"

definition number_toString :: "nat \<Rightarrow> string" where
  "number_toString x = shortest_from 17 1 x"

definition fixed2_digits :: "nat \<Rightarrow> string" where
  "fixed2_digits n =
     (let m = show_nat n;
          m' = (if length m \<le> 2 then replicate (3 - length m) (CHR ''0'') @ m else m);
          k = length m'
      in take (k - 2) m' @ ''.'' @ drop (k - 2) m')"

fun toFixed2 :: "number \<Rightarrow> string" where
  "toFixed2 Infinity = ''Infinity''"
| "toFixed2 (Finite xn xd) =
     (if xn \<ge> 10 ^ 21 * xd then number_toString (xn div xd)
      else fixed2_digits ((200 * xn + xd) div (2 * xd)))"

text \<open>The literal is \<open>ip.fp\<close> with \<open>ip\<close> a possibly empty and \<open>fp\<close> a non-empty digit string.\<close>

definition parseFloat :: "string \<Rightarrow> number" where
  "parseFloat val =
     (let ip = takeWhile is_digit val; fp = drop (length ip + 1) val in
      to_double (digits_value (ip @ fp)) (10 ^ length fp))"

definition is_decimal :: "string \<Rightarrow> bool" where
  "is_decimal val \<longleftrightarrow>
     (let ip = takeWhile is_digit val; rest = drop (length ip) val in
      rest \<noteq> [] \<and> hd rest = CHR ''.'' \<and> tl rest \<noteq> [] \<and> list_all is_digit (tl rest))"

subsection \<open>\<open>normalizeValue\<close>\<close>

definition is_hex3 :: "string \<Rightarrow> bool" where
  "is_hex3 val \<longleftrightarrow> length val = 4 \<and> hd val = CHR ''#'' \<and> list_all is_hex (tl val)"

definition is_hex6 :: "string \<Rightarrow> bool" where
  "is_hex6 val \<longleftrightarrow> length val = 7 \<and> hd val = CHR ''#'' \<and> list_all is_hex (tl val)"

definition is_zero_value :: "string \<Rightarrow> bool" where
  "is_zero_value val \<longleftrightarrow> val \<in> set [''0'', ''0px'', ''0em'', ''0rem'', ''0%'', ''0vh'', ''0vw'']"

definition normalizeValue :: "string \<Rightarrow> string \<Rightarrow> string" where
  "normalizeValue value prop =
     (if value = [] then value
      else let val = toLowerCase (trim value) in
        if is_hex3 val then
          (let rgb = tl val in
           [CHR ''#'', rgb ! 0, rgb ! 0, rgb ! 1, rgb ! 1, rgb ! 2, rgb ! 2])
        else if is_hex6 val then toLowerCase val
        else if is_decimal val then toFixed2 (parseFloat val)
        else if is_zero_value val then ''0''
        else if startsWith val ''rgb'' then filter (\<lambda>c. \<not> is_space c) val
        else val)"

section \<open>Grid column counting\<close>

definition is_line_end :: "char \<Rightarrow> bool" where
  "is_line_end c \<longleftrightarrow> c = CHR 0x0A \<or> c = CHR 0x0D"

text \<open>
  The lazy group \<open>(.+?)\)\<close>: the shortest non-empty run without a line end that is
  followed by a closing parenthesis.
\<close>

fun until_paren :: "string \<Rightarrow> string option" where
  "until_paren [] = None"
| "until_paren (c # cs) =
     (if c = CHR '')'' then Some []
      else if is_line_end c then None
      else map_option (Cons c) (until_paren cs))"

fun lazy_template :: "string \<Rightarrow> string option" where
  "lazy_template [] = None"
| "lazy_template (c # cs) = (if is_line_end c then None else map_option (Cons c) (until_paren cs))"

text \<open>\<open>\s*\<close> is greedy: the longest run of spaces first, then shorter ones.\<close>

fun after_spaces :: "nat \<Rightarrow> string \<Rightarrow> string option" where
  "after_spaces 0 t = lazy_template t"
| "after_spaces (Suc i) t =
     (case lazy_template (drop (Suc i) t) of Some u \<Rightarrow> Some u | None \<Rightarrow> after_spaces i t)"

text \<open>The count group \<open>(\d+|auto-fill|auto-fit)\<close> followed by the comma.\<close>

definition repeat_count :: "string \<Rightarrow> (string \<times> string) option" where
  "repeat_count r =
     (let ds = takeWhile is_digit r in
      if ds \<noteq> [] then
        (if startsWith (drop (length ds) r) '','' then Some (ds, drop (length ds + 1) r) else None)
      else if startsWith r ''auto-fill,'' then Some (''auto-fill'', drop 10 r)
      else if startsWith r ''auto-fit,'' then Some (''auto-fit'', drop 9 r)
      else None)"

definition match_repeat_here :: "string \<Rightarrow> (string \<times> string) option" where
  "match_repeat_here s =
     (if startsWith s ''repeat('' then
        (case repeat_count (drop 7 s) of
           None \<Rightarrow> None
         | Some (count, t) \<Rightarrow>
             map_option (Pair count) (after_spaces (length (takeWhile is_space t)) t))
      else None)"

text \<open>\<open>val.match(/repeat\((\d+|auto-fill|auto-fit),\s*(.+?)\)/)\<close>: the leftmost match.\<close>

fun match_repeat :: "string \<Rightarrow> (string \<times> string) option" where
  "match_repeat [] = None"
| "match_repeat (c # cs) =
     (case match_repeat_here (c # cs) of Some m \<Rightarrow> Some m | None \<Rightarrow> match_repeat cs)"

text \<open>
  A match of \<open>name\([^)]+\)\<close> at the head of the string: what follows the closing
  parenthesis.
\<close>

definition call_here :: "string \<Rightarrow> string \<Rightarrow> string option" where
  "call_here name s =
     (if startsWith s (name @ ''('') then
        (let r = drop (length name + 1) s; body = takeWhile (\<lambda>c. c \<noteq> CHR '')'') r in
         if body \<noteq> [] \<and> drop (length body) r \<noteq> [] then Some (drop (length body + 1) r)
         else None)
      else None)"

text \<open>\<open>val.replace(/repeat\([^)]+\)/, '')\<close>: the leftmost match is removed.\<close>

fun remove_repeat :: "string \<Rightarrow> string" where
  "remove_repeat [] = []"
| "remove_repeat (c # cs) =
     (case call_here ''repeat'' (c # cs) of Some rest \<Rightarrow> rest | None \<Rightarrow> c # remove_repeat cs)"

text \<open>\<open>cleaned.replace(/name\([^)]+\)/g, 'COL')\<close>; the fuel is the length of the string.\<close>

fun replace_calls :: "nat \<Rightarrow> string \<Rightarrow> string \<Rightarrow> string" where
  "replace_calls fuel name [] = []"
| "replace_calls 0 name (c # cs) = c # cs"
| "replace_calls (Suc fuel) name (c # cs) =
     (case call_here name (c # cs) of
        Some rest \<Rightarrow> ''COL'' @ replace_calls fuel name rest
      | None \<Rightarrow> c # replace_calls fuel name cs)"

definition replace_all_calls :: "string \<Rightarrow> string \<Rightarrow> string" where
  "replace_all_calls name s = replace_calls (length s) name s"

text \<open>\<open>s.split(/\s+/)\<close> without the empty pieces.\<close>

fun split_spaces :: "string \<Rightarrow> string \<Rightarrow> string list" where
  "split_spaces cur [] = (if cur = [] then [] else [cur])"
| "split_spaces cur (c # cs) =
     (if is_space c then (if cur = [] then [] else [cur]) @ split_spaces [] cs
      else split_spaces (cur @ [c]) cs)"

definition countColumnsInTemplate :: "string \<Rightarrow> nat" where
  "countColumnsInTemplate template =
     (if template = [] \<or> trim template = [] then 0
      else let cleaned = replace_all_calls ''clamp''
                           (replace_all_calls ''fit-content''
                              (replace_all_calls ''minmax'' template))
           in length (filter (\<lambda>p. p \<noteq> ''|'') (split_spaces [] cleaned)))"

text \<open>The result is \<open>-1\<close> for the \<open>auto-fill\<close> and \<open>auto-fit\<close> forms.\<close>

definition countGridColumns :: "string \<Rightarrow> int" where
  "countGridColumns value =
     (if value = [] then 0
      else let val = trim value in
        case match_repeat val of
          Some (count, template) \<Rightarrow>
            if count = ''auto-fill'' \<or> count = ''auto-fit'' then - 1
            else let repeatCount = digits_value count;
                     templateColumns = countColumnsInTemplate template;
                     remaining = trim (remove_repeat val)
                 in int (repeatCount * templateColumns)
                    + (if remaining \<noteq> [] then int (countColumnsInTemplate remaining) else 0)
        | None \<Rightarrow> int (countColumnsInTemplate val))"

section \<open>Declarations\<close>

text \<open>
  \<open>extractDeclarations\<close> builds a plain object from property name to the list of its values
  in document order, kept here in the order of first insertion. For a
  declaration whose property is named like a member of \<open>Object.prototype\<close> the test
  \<open>!props[decl.prop]\<close> finds the inherited member, no list is created, and
  \<open>props[decl.prop].push\<close> is not a function: the walk throws a \<open>TypeError\<close>.
\<close>

type_synonym prop_table = "(string \<times> string list) list"

fun push_value :: "string \<Rightarrow> string \<Rightarrow> prop_table \<Rightarrow> prop_table" where
  "push_value p v [] = [(p, [v])]"
| "push_value p v ((q, vs) # t) =
     (if p = q then (q, vs @ [v]) # t else (q, vs) # push_value p v t)"

definition collect :: "(string \<times> string) list \<Rightarrow> prop_table" where
  "collect ds = foldl (\<lambda>t d. push_value (fst d) (snd d) t) [] ds"

definition declaration_table :: "node \<Rightarrow> prop_table" where
  "declaration_table ast = collect (walkDecls ast)"

definition names_prototype_member :: "node \<Rightarrow> bool" where
  "names_prototype_member ast \<longleftrightarrow>
     list_ex (\<lambda>d. fst d \<in> set object_prototype_members) (walkDecls ast)"

definition extractDeclarations :: "node \<Rightarrow> error + prop_table" where
  "extractDeclarations ast =
     (if names_prototype_member ast then Inl TypeError else Inr (declaration_table ast))"

text \<open>
  \<open>Object.keys\<close> of such an object: the keys that are array indices (a decimal numeral
  without a leading zero, below \<open>2^32 - 1\<close>) in ascending numeric order, then the other
  keys in the order of their insertion.
\<close>

definition is_array_index :: "string \<Rightarrow> bool" where
  "is_array_index k \<longleftrightarrow>
     k \<noteq> [] \<and> list_all is_digit k \<and> (if hd k = CHR ''0'' then k = ''0'' else True)
       \<and> digits_value k < 2 ^ 32 - 1"

definition object_keys :: "(string \<times> 'v) list \<Rightarrow> string list" where
  "object_keys t =
     sort_key digits_value (filter is_array_index (map fst t))
     @ filter (\<lambda>k. \<not> is_array_index k) (map fst t)"

text \<open>\<open>props[prop] || []\<close>.\<close>

definition values_of :: "prop_table \<Rightarrow> string \<Rightarrow> string list" where
  "values_of t p = (case map_of t p of Some vs \<Rightarrow> vs | None \<Rightarrow> [])"

text \<open>\<open>Array.from(new Set(xs))\<close>: the first occurrence of every element, in order.\<close>

fun uniq :: "'a list \<Rightarrow> 'a list" where
  "uniq [] = []"
| "uniq (x # xs) = x # filter (\<lambda>y. y \<noteq> x) (uniq xs)"

subsection \<open>Layout sub-details\<close>

definition last_value :: "(string \<times> string) list \<Rightarrow> string \<Rightarrow> string option" where
  "last_value ds p = (case filter (\<lambda>d. fst d = p) ds of [] \<Rightarrow> None | x # xs \<Rightarrow> Some (snd (last (x # xs))))"

definition truthy_detail :: "string \<Rightarrow> string option \<Rightarrow> change list" where
  "truthy_detail label v =
     (case v of None \<Rightarrow> [] | Some t \<Rightarrow> if t \<noteq> [] then [SubDetail (label @ t)] else [])"

definition analyzeFlexboxProperties :: "node \<Rightarrow> change list" where
  "analyzeFlexboxProperties ast =
     (let ds = walkDecls ast in
        (if last_value ds ''flex-direction'' = Some ''column'' then [SubDetail ''Column layout'']
         else [])
      @ truthy_detail ''Justify: '' (last_value ds ''justify-content'')
      @ truthy_detail ''Align: '' (last_value ds ''align-items'')
      @ truthy_detail ''Gap: '' (last_value ds ''gap''))"

definition grid_details :: "string \<times> string \<Rightarrow> change list" where
  "grid_details d =
     (if fst d = ''grid-template-columns'' then
        (let columns = countGridColumns (snd d) in
         if columns > 0 then [SubDetail (show_nat (nat columns) @ '' column grid'')]
         else [SubDetail (''Grid columns: '' @ snd d)])
      else [])
   @ (if fst d = ''gap'' \<or> fst d = ''grid-gap'' then [SubDetail (''With gap spacing: '' @ snd d)]
      else [])
   @ (if fst d = ''grid-template-rows'' then [SubDetail (''Row template: '' @ snd d)] else [])"

definition analyzeGridProperties :: "node \<Rightarrow> change list" where
  "analyzeGridProperties ast = concat (map grid_details (walkDecls ast))"

subsection \<open>The dedicated handlers\<close>

text \<open>
  \<open>handleDisplayChanges(newVals, oldVals, counts, ast, changes)\<close>. The caller passes the
  counter of the new values as \<open>counts\<close> and the new tree as \<open>ast\<close>; the layout analysers
  are reached only for a value of the new tree, so \<open>ast\<close> is a tree there.
\<close>

definition layout_details :: "(node \<Rightarrow> change list) \<Rightarrow> node option \<Rightarrow> change list" where
  "layout_details analyse ast = (case ast of Some a \<Rightarrow> analyse a | None \<Rightarrow> [])"

definition display_added :: "(string \<times> nat) list \<Rightarrow> node option \<Rightarrow> string \<Rightarrow> change list" where
  "display_added counts ast v =
     (if v = ''flex'' then ImplementedFlexbox # layout_details analyzeFlexboxProperties ast
      else if v = ''grid'' then ImplementedGrid # layout_details analyzeGridProperties ast
      else if v = ''none'' then [HiddenVia ''display'' ''none'' (count_of counts v)]
      else [PropertyAdded ''display'' v (count_of counts v)])"

definition handleDisplayChanges ::
  "string list \<Rightarrow> string list \<Rightarrow> (string \<times> nat) list \<Rightarrow> node option \<Rightarrow> change list" where
  "handleDisplayChanges newVals oldVals counts ast =
     (if length oldVals = 1 \<and> length newVals = 1 \<and> hd oldVals \<noteq> hd newVals then
        (if hd newVals = ''flex'' then
           ChangedToFlexbox (hd oldVals) # layout_details analyzeFlexboxProperties ast
         else if hd newVals = ''grid'' then
           ChangedToGrid (hd oldVals) # layout_details analyzeGridProperties ast
         else [PropertyChanged ''display'' (hd oldVals) (hd newVals) None])
      else
        concat (map (display_added counts ast) (filter (\<lambda>v. v \<notin> set oldVals) newVals))
        @ map (\<lambda>v. PropertyRemoved ''display'' v (count_of counts v))
            (filter (\<lambda>v. v \<notin> set newVals) oldVals))"

definition handleSpecialProperty ::
  "string \<Rightarrow> string list \<Rightarrow> string list \<Rightarrow> (string \<times> nat) list \<Rightarrow> (string \<times> nat) list
     \<Rightarrow> change list" where
  "handleSpecialProperty prop newVals oldVals newCounts oldCounts =
     (if length oldVals = 1 \<and> length newVals = 1 \<and> hd oldVals \<noteq> hd newVals then
        [PropertyChanged prop (hd oldVals) (hd newVals) None]
      else
        map (\<lambda>v. if prop = ''visibility'' \<and> v = ''hidden''
                 then HiddenVia ''visibility'' ''hidden'' (count_of newCounts v)
                 else PropertyAdded prop v (count_of newCounts v))
          (filter (\<lambda>v. v \<notin> set oldVals) newVals)
        @ map (\<lambda>v. PropertyRemoved prop v (count_of oldCounts v))
            (filter (\<lambda>v. v \<notin> set newVals) oldVals))"

subsection \<open>Overrides inside one rule\<close>

text \<open>
  One step of the loop of \<open>detectDuplicateProperties\<close> over the declarations below a rule:
  \<open>propMap\<close> keeps the first value of every property, \<open>duplicates\<close> every value of a
  property that occurs again.
\<close>

definition dup_step ::
  "(string \<times> string) list \<times> prop_table \<Rightarrow> string \<times> string
     \<Rightarrow> (string \<times> string) list \<times> prop_table" where
  "dup_step st d =
     (case map_of (fst st) (fst d) of
        Some first \<Rightarrow>
          (fst st,
           push_value (fst d) (snd d)
             (if has (snd st) (fst d) then snd st else snd st @ [(fst d, [first])]))
      | None \<Rightarrow> (fst st @ [d], snd st))"

definition rule_overrides :: "node \<times> node list \<Rightarrow> change list" where
  "rule_overrides r =
     (let duplicates = snd (foldl dup_step ([], []) (walkDecls (fst r))) in
      concat (map (\<lambda>e. let uniqueValues = uniq (map (\<lambda>v. normalizeValue v (fst e)) (snd e)) in
                        if length uniqueValues > 1
                        then [OverrideDetected (fst e) (buildSelectorPath (fst r # snd r))
                                (length uniqueValues)]
                        else [])
                duplicates))"

definition detectDuplicateProperties :: "node \<Rightarrow> change list" where
  "detectDuplicateProperties ast = concat (map rule_overrides (walkRules [] ast))"

subsection \<open>Animations and typography\<close>

text \<open>
  The loop bodies of \<open>analyzeAnimations\<close> and \<open>analyzeTypography\<close> are the same text: they
  compare the raw values of one property.
\<close>

definition raw_changes :: "prop_table \<Rightarrow> prop_table \<Rightarrow> string \<Rightarrow> change list" where
  "raw_changes newT oldT prop =
     (let newVals = values_of newT prop; oldVals = values_of oldT prop;
          newUnique = uniq newVals; oldUnique = uniq oldVals
      in if length oldUnique = 1 \<and> length newUnique = 1 \<and> hd oldUnique \<noteq> hd newUnique then
           [PropertyChanged prop (hd oldUnique) (hd newUnique) None]
         else
           map (\<lambda>v. PropertyAdded prop v (Some (length (filter (\<lambda>u. u = v) newVals))))
             (filter (\<lambda>v. v \<notin> set oldUnique) newUnique)
           @ map (\<lambda>v. PropertyRemoved prop v (Some (length (filter (\<lambda>u. u = v) oldVals))))
               (filter (\<lambda>v. v \<notin> set newUnique) oldUnique))"

definition is_animation_prop :: "string \<Rightarrow> bool" where
  "is_animation_prop prop \<longleftrightarrow>
     startsWith prop ''animation'' \<or> prop = ''transition'' \<or> prop = ''transform''"

definition extractAnimationProps :: "node \<Rightarrow> prop_table" where
  "extractAnimationProps ast = collect (filter (\<lambda>d. is_animation_prop (fst d)) (walkDecls ast))"

definition analyzeAnimations :: "node \<Rightarrow> node option \<Rightarrow> change list" where
  "analyzeAnimations newAST oldAST =
     (let newAnimProps = extractAnimationProps newAST;
          oldAnimProps = (case oldAST of Some a \<Rightarrow> extractAnimationProps a | None \<Rightarrow> [])
      in concat (map (raw_changes newAnimProps oldAnimProps)
                   (uniq (object_keys newAnimProps @ object_keys oldAnimProps))))"

definition typographyProps :: "string list" where
  "typographyProps = [''font-family'', ''font-size'', ''font-weight'', ''line-height'',
     ''letter-spacing'', ''text-align'', ''text-transform'', ''text-decoration'']"

definition extractTypographyProps :: "node \<Rightarrow> string list \<Rightarrow> prop_table" where
  "extractTypographyProps ast props = collect (filter (\<lambda>d. fst d \<in> set props) (walkDecls ast))"

definition analyzeTypography :: "node \<Rightarrow> node option \<Rightarrow> change list" where
  "analyzeTypography newAST oldAST =
     (let newTypo = extractTypographyProps newAST typographyProps;
          oldTypo = (case oldAST of Some a \<Rightarrow> extractTypographyProps a typographyProps
                     | None \<Rightarrow> [])
      in concat (map (raw_changes newTypo oldTypo) (object_keys newTypo)))"

subsection \<open>\<open>compareDeclarations\<close>\<close>

text \<open>The body of \<open>allProps.forEach\<close> for one property.\<close>

definition declaration_changes ::
  "node option \<Rightarrow> prop_table \<Rightarrow> prop_table \<Rightarrow> string \<Rightarrow> change list" where
  "declaration_changes newAST oldProps newProps prop =
     (if is_animation_prop prop then []
      else
        let oldVals = map (\<lambda>v. normalizeValue v prop) (values_of oldProps prop);
            newVals = map (\<lambda>v. normalizeValue v prop) (values_of newProps prop);
            oldUnique = uniq oldVals;
            newUnique = uniq newVals;
            oldCounts = count_map oldVals;
            newCounts = count_map newVals
        in if prop = ''display'' then handleDisplayChanges newUnique oldUnique newCounts newAST
           else if prop \<in> set [''position'', ''visibility'', ''opacity'', ''z-index''] then
             handleSpecialProperty prop newUnique oldUnique newCounts oldCounts
           else if length oldUnique = 1 \<and> length newUnique = 1 \<and> hd oldUnique \<noteq> hd newUnique
           then
             [PropertyChanged prop (hd oldUnique) (hd newUnique)
                (Some (max (length oldVals) (length newVals)))]
           else if oldUnique = [] \<and> newUnique \<noteq> [] then
             map (\<lambda>v. PropertyAdded prop v (count_of newCounts v)) newUnique
           else if newUnique = [] \<and> oldUnique \<noteq> [] then
             map (\<lambda>v. PropertyRemoved prop v (count_of oldCounts v)) oldUnique
           else
             map (\<lambda>v. PropertyAdded prop v (count_of newCounts v))
               (filter (\<lambda>v. v \<notin> set oldUnique) newUnique)
             @ map (\<lambda>v. PropertyRemoved prop v (count_of oldCounts v))
                 (filter (\<lambda>v. v \<notin> set newUnique) oldUnique))"

text \<open>
  The comparison for two extracted tables: the override warnings of the new tree, the
  records of every property, and the animation and typography passes.
\<close>

definition compare_tables ::
  "node option \<Rightarrow> node option \<Rightarrow> prop_table \<Rightarrow> prop_table \<Rightarrow> change list" where
  "compare_tables oldAST newAST oldProps newProps =
     (let allProps = uniq (object_keys oldProps @ object_keys newProps)
      in (case newAST of Some a \<Rightarrow> detectDuplicateProperties a | None \<Rightarrow> [])
         @ concat (map (declaration_changes newAST oldProps newProps) allProps)
         @ (case newAST of
              Some a \<Rightarrow> analyzeAnimations a oldAST @ analyzeTypography a oldAST
            | None \<Rightarrow> []))"

text \<open>
  \<open>compareDeclarations\<close>: the list of change records, or the exception of an extraction
  (of the old tree first).
\<close>

definition compareDeclarations :: "node option \<Rightarrow> node option \<Rightarrow> error + change list" where
  "compareDeclarations oldAST newAST =
     (case (case oldAST of Some a \<Rightarrow> extractDeclarations a | None \<Rightarrow> Inr []) of
        Inl e \<Rightarrow> Inl e
      | Inr oldProps \<Rightarrow>
          (case (case newAST of Some a \<Rightarrow> extractDeclarations a | None \<Rightarrow> Inr []) of
             Inl e \<Rightarrow> Inl e
           | Inr newProps \<Rightarrow> Inr (compare_tables oldAST newAST oldProps newProps)))"

text \<open>The strings \<open>compareDeclarations\<close> returns: the text of every record.\<close>

definition compareDeclarations_text :: "node option \<Rightarrow> node option \<Rightarrow> error + string list" where
  "compareDeclarations_text oldAST newAST =
     (case compareDeclarations oldAST newAST of
        Inl e \<Rightarrow> Inl e
      | Inr cs \<Rightarrow> Inr (map render cs))"

subsection \<open>Reading the records of one property\<close>

text \<open>
  The property a record reports on: the added, removed, changed and hidden records name
  it, the layout records belong to \<open>display\<close>; selector records, sub-details and override
  warnings are not records of a property value.
\<close>

fun change_prop :: "change \<Rightarrow> string option" where
  "change_prop (PropertyAdded prop v count) = Some prop"
| "change_prop (PropertyRemoved prop v count) = Some prop"
| "change_prop (PropertyChanged prop x y count) = Some prop"
| "change_prop (HiddenVia prop v count) = Some prop"
| "change_prop (ChangedToFlexbox x) = Some ''display''"
| "change_prop (ChangedToGrid x) = Some ''display''"
| "change_prop ImplementedFlexbox = Some ''display''"
| "change_prop ImplementedGrid = Some ''display''"
| "change_prop (SelectorAdded path count) = None"
| "change_prop (SelectorRemoved path count) = None"
| "change_prop (SubDetail t) = None"
| "change_prop (OverrideDetected prop sel n) = None"

definition about :: "string \<Rightarrow> change \<Rightarrow> bool" where
  "about prop r \<longleftrightarrow> change_prop r = Some prop"

text \<open>The old and the new value of a record that reports a change of value.\<close>

fun changed_values :: "change \<Rightarrow> (string \<times> string) option" where
  "changed_values (PropertyChanged prop x y count) = Some (x, y)"
| "changed_values (ChangedToFlexbox x) = Some (x, ''flex'')"
| "changed_values (ChangedToGrid x) = Some (x, ''grid'')"
| "changed_values r = None"

text \<open>The normalized values of a property in one version, in document order.\<close>

definition normalized_values :: "node option \<Rightarrow> string \<Rightarrow> string list" where
  "normalized_values ast prop =
     map (\<lambda>v. normalizeValue v prop)
       (values_of (case ast of Some a \<Rightarrow> declaration_table a | None \<Rightarrow> []) prop)"

section \<open>\<open>compareAtRules\<close>\<close>

fun atrule_of :: "node \<times> node list \<Rightarrow> (string \<times> string) list" where
  "atrule_of (AtRule n p cs, anc) = [(n, p)]"
| "atrule_of (n, anc) = []"

text \<open>\<open>walkAtRules\<close>, as the list of (name, params) pairs in document order.\<close>

definition walkAtRules :: "node \<Rightarrow> (string \<times> string) list" where
  "walkAtRules ast = concat (map atrule_of (walk [] ast))"

record at_rules =
  media :: "string list"
  keyframes :: "string list"
  at_import :: "string list"
  fontFace :: "string list"
  supports :: "string list"
  container :: "string list"

definition params_named :: "string \<Rightarrow> (string \<times> string) list \<Rightarrow> string list" where
  "params_named n rs = map snd (filter (\<lambda>r. fst r = n) rs)"

text \<open>\<open>params.replace(/['"]/g, '')\<close>.\<close>

definition strip_quotes :: "string \<Rightarrow> string" where
  "strip_quotes t = filter (\<lambda>c. c \<noteq> CHR 0x27 \<and> c \<noteq> CHR 0x22) t"

definition extractAtRules :: "node \<Rightarrow> at_rules" where
  "extractAtRules ast =
     (let rs = walkAtRules ast in
      \<lparr>media = params_named ''media'' rs,
       keyframes = params_named ''keyframes'' rs,
       at_import = map strip_quotes (params_named ''import'' rs),
       fontFace = map (\<lambda>p. ''font-face'') (params_named ''font-face'' rs),
       supports = params_named ''supports'' rs,
       container = params_named ''container'' rs\<rparr>)"

definition no_at_rules :: at_rules where
  "no_at_rules = \<lparr>media = [], keyframes = [], at_import = [], fontFace = [], supports = [],
     container = []\<rparr>"

text \<open>\<open>/prefers-color-scheme:\s*dark/.test(params)\<close>.\<close>

fun dark_mode :: "string \<Rightarrow> bool" where
  "dark_mode [] = False"
| "dark_mode (c # cs) =
     ((startsWith (c # cs) ''prefers-color-scheme:''
         \<and> startsWith (dropWhile is_space (drop (length ''prefers-color-scheme:'') (c # cs)))
               ''dark'')
      \<or> dark_mode cs)"

definition check_mark :: string where
  "check_mark = [CHR 0xE2, CHR 0x9C, CHR 0x93]"

definition compareAtRules :: "node option \<Rightarrow> node option \<Rightarrow> string list" where
  "compareAtRules oldAST newAST =
     (let oldAtRules = (case oldAST of Some a \<Rightarrow> extractAtRules a | None \<Rightarrow> no_at_rules);
          newAtRules = (case newAST of Some a \<Rightarrow> extractAtRules a | None \<Rightarrow> no_at_rules)
      in concat (map (\<lambda>params. (''Property added: @media '' @ params)
                        # (if dark_mode params then [check_mark @ '' Added dark mode support'']
                           else []))
                   (filter (\<lambda>m. m \<notin> set (media oldAtRules)) (media newAtRules)))
         @ map (\<lambda>params. ''Property removed: @media '' @ params)
             (filter (\<lambda>m. m \<notin> set (media newAtRules)) (media oldAtRules))
         @ map (\<lambda>n. ''Property added: @keyframes '' @ n)
             (filter (\<lambda>k. k \<notin> set (keyframes oldAtRules)) (keyframes newAtRules))
         @ map (\<lambda>n. ''Property removed: @keyframes '' @ n)
             (filter (\<lambda>k. k \<notin> set (keyframes newAtRules)) (keyframes oldAtRules))
         @ (if length (fontFace newAtRules) > length (fontFace oldAtRules) then
              (let d = length (fontFace newAtRules) - length (fontFace oldAtRules) in
               [''Property added: @font-face ('' @ show_nat d @ '' custom font''
                  @ (if d > 1 then ''s'' else []) @ '')''])
            else [])
         @ map (\<lambda>url. ''Property added: @import '' @ url)
             (filter (\<lambda>i. i \<notin> set (at_import oldAtRules)) (at_import newAtRules))
         @ map (\<lambda>url. ''Property removed: @import '' @ url)
             (filter (\<lambda>i. i \<notin> set (at_import newAtRules)) (at_import oldAtRules)))"

section \<open>The function diff of \<open>ASTParser\<close>\<close>

text \<open>
  What \<open>extractFunctionDetails\<close> records of a function, as far as the diff reads it: the
  name, the flags, the parameter descriptors, the complexity count and the two body
  flags. \<open>hasDefault\<close> is false where \<open>extractParamInfo\<close> leaves the field out.
\<close>

record param_info =
  pname :: string
  hasDefault :: bool

record func_info =
  name :: string
  async :: bool
  params :: "param_info list"
  hasReturn :: bool
  complexity :: nat
  callsAPI :: bool

definition compareFunctions :: "func_info \<Rightarrow> func_info \<Rightarrow> string list" where
  "compareFunctions oldFunc newFunc =
     (if async oldFunc \<noteq> async newFunc
      then [''Changed to '' @ (if async newFunc then ''async'' else ''sync'')] else [])
   @ (let oldParams = join '','' (map pname (params oldFunc));
          newParams = join '','' (map pname (params newFunc))
      in if oldParams \<noteq> newParams then
           map (\<lambda>p. ''Added parameter: '' @ pname p
                       @ (if hasDefault p then '' (with default)'' else []))
             (filter (\<lambda>np. \<not> list_ex (\<lambda>op. pname op = pname np) (params oldFunc))
                (params newFunc))
           @ map (\<lambda>p. ''Removed parameter: '' @ pname p)
               (filter (\<lambda>op. \<not> list_ex (\<lambda>np. pname np = pname op) (params newFunc))
                  (params oldFunc))
         else [])
   @ (if complexity newFunc > complexity oldFunc + 2
      then [''Complexity increased ('' @ show_nat (complexity oldFunc) @ '' '' @ arrow @ '' ''
              @ show_nat (complexity newFunc) @ '')'']
      else [])
   @ (if \<not> callsAPI oldFunc \<and> callsAPI newFunc then [''Added API calls''] else [])
   @ (if hasReturn oldFunc \<noteq> hasReturn newFunc
      then [if hasReturn newFunc then ''Added return statement''
            else ''Removed return statement'']
      else [])"

text \<open>The body of \<open>newFuncs.forEach\<close> for one function of the new version.\<close>

definition new_function_changes :: "func_info list \<Rightarrow> func_info \<Rightarrow> string list" where
  "new_function_changes oldFuncs newFunc =
     (case find (\<lambda>f. name f = name newFunc) oldFuncs of
        None \<Rightarrow>
          [''Added '' @ (if async newFunc then ''async '' else []) @ ''function: ''
             @ name newFunc @ ''('' @ join '', '' (map pname (params newFunc)) @ '')'']
          @ (if callsAPI newFunc
             then [''  '' @ branch_sign @ '' Function '' @ name newFunc @ '' makes API calls'']
             else [])
          @ (if complexity newFunc > 5
             then [''  '' @ branch_sign @ '' High complexity (''
                     @ show_nat (complexity newFunc) @ '')'']
             else [])
      | Some oldFunc \<Rightarrow>
          (let funcChanges = compareFunctions oldFunc newFunc in
           if length funcChanges > 0 then
             (''Function '' @ name newFunc @ '' changed:'')
               # map (\<lambda>c. ''  '' @ branch_sign @ '' '' @ c) funcChanges
           else []))"

definition diffFunctions :: "func_info list \<Rightarrow> func_info list \<Rightarrow> string list" where
  "diffFunctions oldFuncs newFuncs =
     concat (map (new_function_changes oldFuncs) newFuncs)
     @ concat (map (\<lambda>oldFunc. if find (\<lambda>f. name f = name oldFunc) newFuncs = None
                              then [''Removed function: '' @ name oldFunc] else [])
                 oldFuncs)"

definition complexity_line :: "func_info \<Rightarrow> func_info \<Rightarrow> string" where
  "complexity_line oldFunc newFunc =
     ''Complexity increased ('' @ show_nat (complexity oldFunc) @ '' '' @ arrow @ '' ''
       @ show_nat (complexity newFunc) @ '')''"

text \<open>The two versions of \<open>login\<close> of the end-to-end scenario.\<close>

definition login_old :: func_info where
  "login_old = \<lparr>name = ''login'', async = False,
     params = [\<lparr>pname = ''username'', hasDefault = False\<rparr>],
     hasReturn = True, complexity = 1, callsAPI = False\<rparr>"

definition login_new :: func_info where
  "login_new = \<lparr>name = ''login'', async = True,
     params = [\<lparr>pname = ''username'', hasDefault = False\<rparr>,
               \<lparr>pname = ''rememberMe'', hasDefault = True\<rparr>],
     hasReturn = True, complexity = 3, callsAPI = True\<rparr>"

section \<open>The other diffs of \<open>performSemanticDiff\<close>\<close>

text \<open>
  What \<open>extractCodeStructure\<close> records of classes, imports, exports, variables and hook
  calls, as far as the diffs read it. The name of a method is \<open>m.key.name\<close> and the name of
  a variable \<open>node.id.name\<close>: \<open>None\<close> where that is undefined (a computed or quoted method
  key, a destructuring pattern). An import carries its source and the local names of its
  specifiers, an export its type (\<open>default\<close> or \<open>named\<close>) and the name a default export is
  reported with, a hook call its name.
\<close>

record method_info =
  method_name :: "string option"
  static :: bool

record class_info =
  class_name :: string
  isComponent :: bool
  methods :: "method_info list"

record import_info =
  source :: string
  specifiers :: "string list"

record export_info =
  export_type :: string
  export_name :: string

record var_info =
  var_name :: "string option"
  kind :: string

record code_structure =
  all_functions :: "func_info list"
  all_classes :: "class_info list"
  all_imports :: "import_info list"
  all_exports :: "export_info list"
  all_variables :: "var_info list"
  all_components :: "class_info list"
  all_hooks :: "string list"
  isReact :: bool

text \<open>
  (The fields of the structure are \<open>functions\<close>, \<open>classes\<close>, \<open>imports\<close>, \<open>exports\<close>,
  \<open>variables\<close>, \<open>components\<close> and \<open>hooks\<close> in the source.)
\<close>

text \<open>A name inside a template string: \<open>undefined\<close> prints as that word.\<close>

definition js_text :: "string option \<Rightarrow> string" where
  "js_text n = (case n of Some t \<Rightarrow> t | None \<Rightarrow> ''undefined'')"

definition compareClassMethods :: "class_info \<Rightarrow> class_info \<Rightarrow> string list" where
  "compareClassMethods oldClass newClass =
     map (\<lambda>newMethod. ''Added method: '' @ js_text (method_name newMethod)
                        @ (if static newMethod then '' (static)'' else []))
       (filter (\<lambda>newMethod.
                  find (\<lambda>m. method_name m = method_name newMethod) (methods oldClass) = None)
          (methods newClass))
     @ map (\<lambda>oldMethod. ''Removed method: '' @ js_text (method_name oldMethod))
         (filter (\<lambda>oldMethod.
                    find (\<lambda>m. method_name m = method_name oldMethod) (methods newClass) = None)
            (methods oldClass))"

text \<open>The body of \<open>newClasses.forEach\<close> for one class of the new version.\<close>

definition new_class_changes :: "class_info list \<Rightarrow> class_info \<Rightarrow> string list" where
  "new_class_changes oldClasses newClass =
     (case find (\<lambda>c. class_name c = class_name newClass) oldClasses of
        None \<Rightarrow>
          [''Added '' @ (if isComponent newClass then ''component class'' else ''class'') @ '': ''
             @ class_name newClass]
      | Some oldClass \<Rightarrow>
          (let methodChanges = compareClassMethods oldClass newClass in
           if length methodChanges > 0 then
             (''Class '' @ class_name newClass @ '' changed:'')
               # map (\<lambda>c. ''  '' @ branch_sign @ '' '' @ c) methodChanges
           else []))"

definition diffClasses :: "class_info list \<Rightarrow> class_info list \<Rightarrow> string list" where
  "diffClasses oldClasses newClasses =
     concat (map (new_class_changes oldClasses) newClasses)
     @ concat (map (\<lambda>oldClass. if find (\<lambda>c. class_name c = class_name oldClass) newClasses = None
                               then [''Removed class: '' @ class_name oldClass] else [])
                 oldClasses)"

definition diffImports :: "import_info list \<Rightarrow> import_info list \<Rightarrow> string list" where
  "diffImports oldImports newImports =
     map (\<lambda>newImp. ''Added import: '' @ join '', '' (specifiers newImp) @ '' from ''
                     @ [CHR 0x27] @ source newImp @ [CHR 0x27])
       (filter (\<lambda>newImp. find (\<lambda>i. source i = source newImp) oldImports = None) newImports)
     @ map (\<lambda>oldImp. ''Removed import from '' @ [CHR 0x27] @ source oldImp @ [CHR 0x27])
         (filter (\<lambda>oldImp. find (\<lambda>i. source i = source oldImp) newImports = None) oldImports)"

definition diffExports :: "export_info list \<Rightarrow> export_info list \<Rightarrow> string list" where
  "diffExports oldExports newExports =
     (case (find (\<lambda>e. export_type e = ''default'') newExports,
            find (\<lambda>e. export_type e = ''default'') oldExports) of
        (Some newDefaultExport, None) \<Rightarrow> [''Added default export: '' @ export_name newDefaultExport]
      | (None, Some oldDefaultExport) \<Rightarrow>
          [''Removed default export: '' @ export_name oldDefaultExport]
      | _ \<Rightarrow> [])"

text \<open>The body of \<open>newVars.forEach\<close> for one variable of the new version.\<close>

definition new_variable_changes :: "var_info list \<Rightarrow> var_info \<Rightarrow> string list" where
  "new_variable_changes oldVars newVar =
     (case find (\<lambda>v. var_name v = var_name newVar) oldVars of
        Some oldVar \<Rightarrow>
          if kind oldVar \<noteq> kind newVar then
            [''Changed '' @ js_text (var_name newVar) @ '' from '' @ [CHR 0x27] @ kind oldVar
               @ [CHR 0x27] @ '' to '' @ [CHR 0x27] @ kind newVar @ [CHR 0x27]]
          else []
      | None \<Rightarrow> [])"

definition diffVariables :: "var_info list \<Rightarrow> var_info list \<Rightarrow> string list" where
  "diffVariables oldVars newVars = concat (map (new_variable_changes oldVars) newVars)"

definition diffReactComponents :: "class_info list \<Rightarrow> class_info list \<Rightarrow> string list" where
  "diffReactComponents oldComps newComps =
     map (\<lambda>newComp. ''Added component: '' @ class_name newComp)
       (filter (\<lambda>newComp. find (\<lambda>c. class_name c = class_name newComp) oldComps = None)
          newComps)"

definition hookTypes :: "string list" where
  "hookTypes = [''useState'', ''useEffect'', ''useContext'', ''useReducer'', ''useCallback'',
     ''useMemo'']"

text \<open>The body of \<open>hookTypes.forEach\<close> for one hook name.\<close>

definition hook_changes :: "string list \<Rightarrow> string list \<Rightarrow> string \<Rightarrow> string list" where
  "hook_changes oldHooks newHooks hookType =
     (let oldCount = length (filter (\<lambda>h. h = hookType) oldHooks);
          newCount = length (filter (\<lambda>h. h = hookType) newHooks)
      in if newCount > oldCount then
           [''Added '' @ show_nat (newCount - oldCount) @ '' '' @ hookType @ '' call(s)'']
         else if oldCount > newCount then
           [''Removed '' @ show_nat (oldCount - newCount) @ '' '' @ hookType @ '' call(s)'']
         else [])"

definition diffHooks :: "string list \<Rightarrow> string list \<Rightarrow> string list" where
  "diffHooks oldHooks newHooks = concat (map (hook_changes oldHooks newHooks) hookTypes)"

text \<open>
  \<open>performSemanticDiff\<close> on the two extracted structures (the extraction from the parsed
  programs is outside the model). No diff pushes \<open>null\<close>, so the final filter keeps
  everything.
\<close>

definition performSemanticDiff :: "code_structure \<Rightarrow> code_structure \<Rightarrow> string list" where
  "performSemanticDiff oldStructure newStructure =
     diffFunctions (all_functions oldStructure) (all_functions newStructure)
     @ diffClasses (all_classes oldStructure) (all_classes newStructure)
     @ diffImports (all_imports oldStructure) (all_imports newStructure)
     @ diffExports (all_exports oldStructure) (all_exports newStructure)
     @ diffVariables (all_variables oldStructure) (all_variables newStructure)
     @ (if isReact oldStructure \<or> isReact newStructure then
          diffReactComponents (all_components oldStructure) (all_components newStructure)
          @ diffHooks (all_hooks oldStructure) (all_hooks newStructure)
        else [])"

section \<open>The older variant in \<open>src/parser/cssParser.js\<close>\<close>

text \<open>
  The file \<open>src/parser/cssParser.js\<close> keeps an older stylesheet parser beside the one
  above. Two of its pieces, where it differs: the standard property handling of
  \<open>analyzeDeclarationChanges\<close> (for a property without a dedicated handler; the
  arguments are the normalized values of the added and of the removed side), which pushes
  the added and removed values and then the changed record, and the column count of
  \<open>analyzeGridProperties\<close>, which counts the pieces between spaces.
\<close>

definition standard_property_changes_old :: "string \<Rightarrow> string list \<Rightarrow> string list \<Rightarrow> string list" where
  "standard_property_changes_old prop addedVals removedVals =
     (let addedUnique = uniq addedVals;
          removedUnique = uniq removedVals;
          addedCounts = count_map addedVals;
          removedCounts = count_map removedVals;
          newValues = filter (\<lambda>v. v \<notin> set removedUnique) addedUnique;
          deletedValues = filter (\<lambda>v. v \<notin> set addedUnique) removedUnique;
          totalCount = max (length addedVals) (length removedVals)
      in map (\<lambda>v. render (PropertyAdded prop v (count_of addedCounts v))) newValues
         @ map (\<lambda>v. render (PropertyRemoved prop v (count_of removedCounts v))) deletedValues
         @ (if length removedUnique = 1 \<and> length addedUnique = 1
                \<and> hd removedUnique \<noteq> hd addedUnique
            then [render (PropertyChanged prop (hd removedUnique) (hd addedUnique)
                            (Some totalCount))]
            else if length removedUnique > 0 \<and> length addedUnique > 0
                    \<and> newValues = [] \<and> deletedValues = []
            then (if totalCount > 2
                  then [''Property changed multiple times: '' @ prop @ '' (''
                          @ show_nat totalCount @ '' elements)'']
                  else [])
            else []))"

definition grid_columns_old :: "string \<Rightarrow> nat" where
  "grid_columns_old v = length (filter (\<lambda>p. p \<noteq> ''|'') (split_spaces [] v))"

section \<open>Text of a diff\<close>

fun split_on :: "char \<Rightarrow> string \<Rightarrow> string \<Rightarrow> string list" where
  "split_on sep cur [] = [cur]"
| "split_on sep cur (c # cs) =
     (if c = sep then cur # split_on sep [] cs else split_on sep (cur @ [c]) cs)"

text \<open>\<open>s.split('\n')\<close>.\<close>

definition split_lines :: "string \<Rightarrow> string list" where
  "split_lines s = split_on (CHR 0x0A) [] s"

fun str_includes :: "string \<Rightarrow> string \<Rightarrow> bool" where
  "str_includes [] t = (t = [])"
| "str_includes (c # cs) t = (startsWith (c # cs) t \<or> str_includes cs t)"

definition is_added_line :: "string \<Rightarrow> bool" where
  "is_added_line l \<longleftrightarrow> startsWith l ''+'' \<and> \<not> startsWith l ''+++''"

definition is_removed_line :: "string \<Rightarrow> bool" where
  "is_removed_line l \<longleftrightarrow> startsWith l ''-'' \<and> \<not> startsWith l ''---''"

section \<open>The stylesheet entry point \<open>parseCSS\<close>\<close>

subsection \<open>The diff-text fallback\<close>

definition is_word :: "char \<Rightarrow> bool" where
  "is_word c \<longleftrightarrow>
     c \<in> set ''abcdefghijklmnopqrstuvwxyzABCDEFGHIJKLMNOPQRSTUVWXYZ0123456789_-''"

definition is_value_char :: "char \<Rightarrow> bool" where
  "is_value_char c \<longleftrightarrow> c \<noteq> CHR '';'' \<and> c \<noteq> CHR ''{''"

text \<open>
  The property names of the matches of \<open>/([\w-]+)\s*:\s*([^;{]+)/g\<close>, in order: a run of
  word characters, optional space, a colon, and at least one character that is neither a
  semicolon nor an opening brace; the match runs up to the next semicolon or brace and the
  search goes on behind it.
\<close>

function property_matches :: "string \<Rightarrow> string list" where
  "property_matches [] = []"
| "property_matches (c # cs) =
     (if is_word c then
        (let w = takeWhile is_word (c # cs);
             r = dropWhile is_word (c # cs);
             r' = dropWhile is_space r
         in case r' of
              [] \<Rightarrow> property_matches r
            | d # t \<Rightarrow>
                if d = CHR '':'' \<and> t \<noteq> [] \<and> is_value_char (hd t)
                then w # property_matches (dropWhile is_value_char t)
                else property_matches r)
      else property_matches cs)"
  by pat_completeness auto
termination
proof (relation "measure length")
  show "wf (measure length)" by simp
next
  fix c :: char and cs w r r'
  assume "is_word c" and "r = dropWhile is_word (c # cs)"
  then show "(r, c # cs) \<in> measure length"
    by (simp add: le_imp_less_Suc length_dropWhile_le)
next
  fix c :: char and cs :: string and w r r' d t
  assume w: "is_word c" and r: "r = dropWhile is_word (c # cs)"
    and r': "r' = dropWhile is_space r" and dt: "r' = d # t"
  have "length (dropWhile is_value_char t) \<le> length t" by (rule length_dropWhile_le)
  also have "length t < length r'" using dt by simp
  also have "length r' \<le> length r" using r' by (simp add: length_dropWhile_le)
  also have "length r \<le> length cs" using w r by (simp add: length_dropWhile_le)
  finally show "(dropWhile is_value_char t, c # cs) \<in> measure length" by simp
next
  fix c :: char and cs w r r' d t
  assume "is_word c" and "r = dropWhile is_word (c # cs)"
  then show "(r, c # cs) \<in> measure length"
    by (simp add: le_imp_less_Suc length_dropWhile_le)
next
  fix c :: char and cs :: string
  show "(cs, c # cs) \<in> measure length" by simp
qed

declare property_matches.simps [simp del]

definition generic_record :: string where
  "generic_record = ''Component visual changes detected''"

definition parseCSSWithDiffFallback :: "string \<Rightarrow> string \<Rightarrow> string list" where
  "parseCSSWithDiffFallback diffContent filepath =
     (let addedLines = map (\<lambda>l. trim (drop 1 l)) (filter is_added_line (split_lines diffContent));
          addedContent = join [CHR 0x0A] addedLines;
          properties = uniq (property_matches addedContent);
          changes =
            (if length properties > 0 then
               (if length properties \<le> 5 then map (\<lambda>prop. ''Property modified: '' @ prop) properties
                else [''Component visual changes detected ('' @ show_nat (length properties)
                        @ '' properties modified)''])
             else [generic_record])
            @ (if str_includes addedContent ''@media'' then [''Responsive design changes detected'']
               else [])
            @ (if str_includes addedContent ''@keyframes'' then [''Animation changes detected'']
               else [])
            @ (if str_includes addedContent ''display:'' \<or> str_includes addedContent ''display :'' then
                 (if str_includes addedContent ''flex'' then [''Possible Flexbox layout changes'']
                  else [])
                 @ (if str_includes addedContent ''grid'' then [''Possible Grid layout changes'']
                    else [])
               else [])
      in if length changes > 0 then changes else [generic_record])"

subsection \<open>\<open>parseCSS\<close>\<close>

text \<open>
  The first argument of \<open>parseCSS\<close> is a diff string, a diff object with optional
  \<open>status\<close> and \<open>diff\<close> fields, or nothing.
\<close>

datatype diff_arg = NoDiff | DiffString string | DiffObject "string option" "string option"

text \<open>
  The guards before the \<open>try\<close>: \<open>None\<close> where \<open>parseCSS\<close> returns the empty list at once,
  otherwise the diff text.
\<close>

fun diff_content :: "diff_arg \<Rightarrow> string option" where
  "diff_content NoDiff = None"
| "diff_content (DiffString d) = (if d = [] then None else Some d)"
| "diff_content (DiffObject status d) =
     (if (case status of Some st \<Rightarrow> st \<noteq> [] \<and> st \<noteq> ''modified'' | None \<Rightarrow> False) then None
      else case d of Some t \<Rightarrow> (if t = [] then None else Some t) | None \<Rightarrow> None)"

type_synonym pass = "string \<Rightarrow> string \<Rightarrow> error + string list"

text \<open>
  \<open>parseCSS\<close> over a full-file pass and a fallback pass that may both throw. The full-file
  pass (\<open>parseCSSWithFullFileAST\<close>) reads the repository and runs PostCSS; its outcome is
  a parameter.
\<close>

definition parseCSS_with :: "pass \<Rightarrow> pass \<Rightarrow> diff_arg \<Rightarrow> string \<Rightarrow> error + string list" where
  "parseCSS_with fullFileAST diffFallback diff filepath =
     (case diff_content diff of
        None \<Rightarrow> Inr []
      | Some diffContent \<Rightarrow>
          try_catch
            (case fullFileAST diffContent filepath of
               Inl e \<Rightarrow> Inl e
             | Inr changes \<Rightarrow>
                 if length changes > 0 then Inr changes
                 else Inl (Thrown ''No changes detected by full-file AST''))
            (\<lambda>astError.
               try_catch (diffFallback diffContent filepath)
                 (\<lambda>fallbackError. Inr [generic_record])))"

definition parseCSS :: "pass \<Rightarrow> diff_arg \<Rightarrow> string \<Rightarrow> error + string list" where
  "parseCSS fullFileAST diff filepath =
     parseCSS_with fullFileAST (\<lambda>d f. Inr (parseCSSWithDiffFallback d f)) diff filepath"

section \<open>The fallback controller \<open>analyzeChanges\<close>\<close>

text \<open>
  The version of \<open>analyzeChanges\<close> that \<open>src/changeAnalyzer.js\<close> exports last (with the
  full-file AST tier and the regex fallback).
\<close>

record diff_info =
  path :: string
  newPath :: string
  oldPath :: string
  status :: string
  diff :: string
  binary :: bool

text \<open>
  The options object, as far as \<open>analyzeChanges\<close> reads it: the \<open>risk\<close> flag and the target
  branch (\<open>None\<close> where the field is undefined).
\<close>

record options =
  risk :: bool
  targetBranch :: "string option"

text \<open>
  A result entry; \<open>result_risk\<close> is \<open>None\<close> where the source stores \<open>null\<close>. (The line counts,
  the complexity and the churn score of an entry are computed from the artifact's own
  change list and line counts by functions that return for every list of strings, and are
  left out.)
\<close>

record result =
  file_path :: string
  result_status :: string
  ftype :: string
  changes :: "string list"
  parseMethod :: string
  result_risk :: "string option"

definition last_segment :: "string \<Rightarrow> string" where
  "last_segment s = rev (takeWhile (\<lambda>c. c \<noteq> CHR ''.'') (rev s))"

definition detectFileType :: "string \<Rightarrow> string \<Rightarrow> string" where
  "detectFileType filepath content =
     (let ext = toLowerCase (last_segment filepath) in
      if ext = ''jsx'' \<or> ext = ''tsx'' then ''react''
      else if ext = ''ts'' then ''typescript''
      else if ext = ''js'' then
        (if str_includes content ''$('' \<or> str_includes content ''jQuery'' then ''jquery''
         else if str_includes content ''import React'' \<or> str_includes content (''from '' @ [CHR 0x22] @ ''react'' @ [CHR 0x22])
                 \<or> str_includes content (''from '' @ [CHR 0x27] @ ''react'' @ [CHR 0x27])
         then ''react''
         else ''javascript'')
      else if ext = ''mjs'' \<or> ext = ''cjs'' then ''javascript''
      else if ext = ''html'' \<or> ext = ''htm'' then ''html''
      else if ext = ''css'' then ''css''
      else if ext = ''scss'' \<or> ext = ''sass'' then ''scss''
      else if ext = ''json'' then ''json''
      else if ext = ''md'' \<or> ext = ''markdown'' then ''markdown''
      else if ext = ''py'' then ''python''
      else if ext = ''java'' then ''java''
      else if ext = ''go'' then ''go''
      else if ext = ''rs'' then ''rust''
      else ''unknown'')"

definition parseGeneric :: "string \<Rightarrow> string list" where
  "parseGeneric d =
     (let lines = split_lines d;
          added = length (filter is_added_line lines);
          removed = length (filter is_removed_line lines)
      in if added > 0 \<and> removed > 0 then
           [''Modified: +'' @ show_nat added @ '' -'' @ show_nat removed @ '' lines'']
         else if added > 0 then [''Added '' @ show_nat added @ '' lines'']
         else if removed > 0 then [''Removed '' @ show_nat removed @ '' lines'']
         else [])"

subsection \<open>Module bindings\<close>

text \<open>
  \<open>const { f } = require(m)\<close> binds \<open>f\<close> to the member \<open>f\<close> of the object that \<open>m\<close> assigns
  to \<open>module.exports\<close> last, and to \<open>undefined\<close> when the object has no such member.
  Calling an undefined binding throws a \<open>TypeError\<close>.
\<close>

type_synonym exports = "(string \<times> pass) list"

definition call :: "pass option \<Rightarrow> string \<Rightarrow> string \<Rightarrow> error + string list" where
  "call f d p = (case f of None \<Rightarrow> Inl TypeError | Some g \<Rightarrow> g d p)"

text \<open>\<open>assessRisk\<close> of \<open>src/utils.js\<close>: a function of the file path and the change list.\<close>

type_synonym risk_function = "string \<Rightarrow> string list \<Rightarrow> string"

definition assessRisk :: risk_function where
  "assessRisk filepath cs =
     (let criticalFiles = [''auth'', ''login'', ''password'', ''token'', ''api'', ''database'',
                           ''config''];
          filename = toLowerCase filepath
      in if list_ex (\<lambda>word. str_includes filename word) criticalFiles then ''HIGH''
         else if list_ex (\<lambda>c. str_includes c ''Removed'' \<or> str_includes c ''security''
                                \<or> str_includes c ''authentication'') cs
         then ''HIGH''
         else if length cs > 5
                 \<or> list_ex (\<lambda>c. str_includes c ''Added import'' \<or> str_includes c ''hook'') cs
         then ''MEDIUM''
         else ''LOW'')"

definition call_risk :: "risk_function option \<Rightarrow> string \<Rightarrow> string list \<Rightarrow> error + string" where
  "call_risk f p cs = (case f of None \<Rightarrow> Inl TypeError | Some g \<Rightarrow> Inr (g p cs))"

text \<open>
  The export objects of the parser modules, over the functions they export:
  \<open>src/parser/jsParser.js\<close> ends with \<open>module.exports = { parseJSWithAST }\<close>,
  \<open>src/parser/jqueryParser.js\<close> with \<open>module.exports = { parseJS }\<close> (which replaces its
  earlier \<open>{ parseJQuery }\<close>), the other three export the function the analyzer asks for.
\<close>

definition jsParser_exports :: "pass \<Rightarrow> exports" where
  "jsParser_exports f = [(''parseJSWithAST'', f)]"

definition jqueryParser_exports :: "pass \<Rightarrow> exports" where
  "jqueryParser_exports f = [(''parseJS'', f)]"

definition reactParser_exports :: "pass \<Rightarrow> exports" where
  "reactParser_exports f = [(''parseReact'', f)]"

definition htmlParser_exports :: "pass \<Rightarrow> exports" where
  "htmlParser_exports f = [(''parseHTML'', f)]"

definition cssParser_exports :: "pass \<Rightarrow> exports" where
  "cssParser_exports f = [(''parseCSS'', f)]"

text \<open>
  \<open>src/utils.js\<close> assigns \<open>module.exports = { assessRisk }\<close> and, further down,
  \<open>module.exports = { analyzeDiff }\<close>: the object a \<open>require\<close> receives is the second one,
  with the single member \<open>analyzeDiff\<close>. (A member is a value of the type of the binding
  that reads the object; only its name decides whether the binding is defined.)
\<close>

definition utils_exports :: "'f \<Rightarrow> (string \<times> 'f) list" where
  "utils_exports analyzeDiff = [(''analyzeDiff'', analyzeDiff)]"

text \<open>The bindings at the head of \<open>changeAnalyzer.js\<close>.\<close>

record bindings =
  parseHTML :: "pass option"
  parseCSS_binding :: "pass option"
  parseJQuery :: "pass option"
  parseJS :: "pass option"
  parseReact :: "pass option"
  assessRisk_binding :: "risk_function option"

definition require_bindings ::
  "exports \<Rightarrow> exports \<Rightarrow> exports \<Rightarrow> exports \<Rightarrow> exports
     \<Rightarrow> (string \<times> risk_function) list \<Rightarrow> bindings" where
  "require_bindings htmlParser cssParser jqueryParser jsParser reactParser utils =
     \<lparr>parseHTML = map_of htmlParser ''parseHTML'',
      parseCSS_binding = map_of cssParser ''parseCSS'',
      parseJQuery = map_of jqueryParser ''parseJQuery'',
      parseJS = map_of jsParser ''parseJS'',
      parseReact = map_of reactParser ''parseReact'',
      assessRisk_binding = map_of utils ''assessRisk''\<rparr>"

text \<open>The bindings the files of the repository give, over the exported functions.\<close>

definition repository_bindings ::
  "pass \<Rightarrow> pass \<Rightarrow> pass \<Rightarrow> pass \<Rightarrow> pass \<Rightarrow> risk_function \<Rightarrow> bindings" where
  "repository_bindings html css js_of_jquery_file jsWithAST react analyzeDiff =
     require_bindings (htmlParser_exports html) (cssParser_exports css)
       (jqueryParser_exports js_of_jquery_file) (jsParser_exports jsWithAST)
       (reactParser_exports react) (utils_exports analyzeDiff)"

subsection \<open>One artifact\<close>

text \<open>
  The tiers for a modified file, as the pair of the change list and the parse method. The
  outcome of \<open>astParser.analyzeFile(diff.path, options.targetBranch || 'main', diff)\<close>
  (which reads both versions from the repository and runs the parser) is the parameter
  \<open>analyzeFile\<close>; it returns the changes or throws.
\<close>

type_synonym ast_tier = "string \<Rightarrow> string \<Rightarrow> diff_info \<Rightarrow> error + string list"

text \<open>\<open>options.targetBranch || 'main'\<close>.\<close>

definition branch_of :: "options \<Rightarrow> string" where
  "branch_of opts =
     (case targetBranch opts of Some t \<Rightarrow> if t \<noteq> [] then t else ''main'' | None \<Rightarrow> ''main'')"

definition code_tiers ::
  "bindings \<Rightarrow> ast_tier \<Rightarrow> options \<Rightarrow> string \<Rightarrow> diff_info \<Rightarrow> error + string list \<times> string" where
  "code_tiers b analyzeFile opts fileType d =
     try_catch
       (case analyzeFile (path d) (branch_of opts) d of
          Inl e \<Rightarrow> Inl e
        | Inr cs \<Rightarrow> Inr (cs, ''ast-full-file''))
       (\<lambda>astError.
          try_catch
            (case (if fileType = ''react'' then call (parseReact b) (diff d) (path d)
                   else call (parseJS b) (diff d) (path d)) of
               Inl e \<Rightarrow> Inl e
             | Inr cs \<Rightarrow> Inr (cs, ''regex-fallback''))
            (\<lambda>regexError. Inr (parseGeneric (diff d), ''generic-fallback'')))"

definition other_tiers :: "bindings \<Rightarrow> string \<Rightarrow> diff_info \<Rightarrow> error + string list \<times> string" where
  "other_tiers b fileType d =
     try_catch
       (if fileType = ''html'' then
          (case call (parseHTML b) (diff d) (path d) of
             Inl e \<Rightarrow> Inl e | Inr cs \<Rightarrow> Inr (cs, ''regex''))
        else if fileType = ''css'' \<or> fileType = ''scss'' then
          (case call (parseCSS_binding b) (diff d) (path d) of
             Inl e \<Rightarrow> Inl e | Inr cs \<Rightarrow> Inr (cs, ''postcss-ast''))
        else if fileType = ''jquery'' then
          (case call (parseJQuery b) (diff d) (path d) of
             Inl e \<Rightarrow> Inl e | Inr cs \<Rightarrow> Inr (cs, ''regex''))
        else Inr (parseGeneric (diff d), ''generic''))
       (\<lambda>parserError. Inr (parseGeneric (diff d), ''generic-fallback''))"

text \<open>
  The value of \<open>options.risk ? assessRisk(diff.path, changes) : null\<close>. The call stands
  outside every \<open>try\<close>.
\<close>

definition risk_of :: "bindings \<Rightarrow> options \<Rightarrow> string \<Rightarrow> string list \<Rightarrow> error + string option" where
  "risk_of b opts p cs =
     (if risk opts then
        (case call_risk (assessRisk_binding b) p cs of Inl e \<Rightarrow> Inl e | Inr r \<Rightarrow> Inr (Some r))
      else Inr None)"

text \<open>
  The body of the loop over the diffs: the result pushed for one artifact, or the
  exception that leaves the loop. For a modified file the risk is assessed on the change
  list of the tiers, before an empty list is replaced by \<open>Code modified\<close>.
\<close>

definition analyze_artifact :: "bindings \<Rightarrow> ast_tier \<Rightarrow> options \<Rightarrow> diff_info \<Rightarrow> error + result" where
  "analyze_artifact b analyzeFile opts d =
     (if status d = ''added'' then
        Inr \<lparr>file_path = path d, result_status = ''added'', ftype = detectFileType (path d) (diff d),
             changes = [''File added''], parseMethod = [],
             result_risk = (if risk opts then Some ''LOW'' else None)\<rparr>
      else if status d = ''deleted'' then
        (case risk_of b opts (path d) [''File deleted''] of
           Inl e \<Rightarrow> Inl e
         | Inr r \<Rightarrow>
             Inr \<lparr>file_path = path d, result_status = ''deleted'',
                  ftype = detectFileType (path d) (diff d),
                  changes = [''File deleted''], parseMethod = [], result_risk = r\<rparr>)
      else if status d = ''renamed'' then
        Inr \<lparr>file_path = newPath d, result_status = ''renamed'',
             ftype = detectFileType (newPath d) (diff d),
             changes = [''File renamed from: '' @ oldPath d], parseMethod = [],
             result_risk = (if risk opts then Some ''LOW'' else None)\<rparr>
      else if binary d then
        Inr \<lparr>file_path = path d, result_status = ''modified'', ftype = ''binary'',
             changes = [''Binary file changed''], parseMethod = [], result_risk = Some ''LOW''\<rparr>
      else
        let fileType = detectFileType (path d) (diff d) in
        case (if fileType \<in> set [''javascript'', ''typescript'', ''react'']
              then code_tiers b analyzeFile opts fileType d
              else other_tiers b fileType d) of
          Inl e \<Rightarrow> Inl e
        | Inr (cs, method) \<Rightarrow>
            (case risk_of b opts (path d) cs of
               Inl e \<Rightarrow> Inl e
             | Inr r \<Rightarrow>
                 Inr \<lparr>file_path = path d, result_status = ''modified'', ftype = fileType,
                      changes = (if length cs > 0 then cs else [''Code modified'']),
                      parseMethod = method, result_risk = r\<rparr>))"

text \<open>
  \<open>for (const diff of diffs) { ...; results.push(...) }\<close>: an exception that leaves the
  body leaves the function.
\<close>

fun analyze_loop ::
  "bindings \<Rightarrow> ast_tier \<Rightarrow> options \<Rightarrow> result list \<Rightarrow> diff_info list \<Rightarrow> error + result list" where
  "analyze_loop b analyzeFile opts results [] = Inr results"
| "analyze_loop b analyzeFile opts results (d # ds) =
     (case analyze_artifact b analyzeFile opts d of
        Inl e \<Rightarrow> Inl e
      | Inr r \<Rightarrow> analyze_loop b analyzeFile opts (results @ [r]) ds)"

definition analyzeChanges ::
  "bindings \<Rightarrow> ast_tier \<Rightarrow> options \<Rightarrow> diff_info list \<Rightarrow> error + result list" where
  "analyzeChanges b analyzeFile opts diffs = analyze_loop b analyzeFile opts [] diffs"

section \<open>Example inputs\<close>

text \<open>The two stylesheets of the selector path scenario.\<close>

definition card_sheet :: node where
  "card_sheet = Root [Rule ''.card'' [Rule ''.title'' [Decl ''color'' ''red'']]]"

definition header_sheet :: node where
  "header_sheet = Root [Rule ''.header'' [Rule ''.title'' [Decl ''color'' ''red'']]]"

text \<open>
  A stylesheet with one rule, and a version of it that repeats the selector inside a media
  query and nests a rule two levels below the query.
\<close>

definition plain_sheet :: node where
  "plain_sheet = Root [Rule ''.a'' [Decl ''color'' ''red'']]"

definition media_sheet :: node where
  "media_sheet =
     Root [Rule ''.a'' [Decl ''color'' ''red''],
           AtRule ''media'' ''(min-width: 100px)''
             [Rule ''.a'' [Decl ''color'' ''blue''],
              Rule ''.nav'' [Rule ''.item'' [Decl ''color'' ''blue'']]]]"

text \<open>A JavaScript artifact that does not parse, and a stylesheet artifact.\<close>

definition broken_js :: diff_info where
  "broken_js = \<lparr>path = ''src/app.js'', newPath = [], oldPath = [], status = ''modified'',
     diff = ''+function f( {'', binary = False\<rparr>"

definition style_css :: diff_info where
  "style_css = \<lparr>path = ''src/style.css'', newPath = [], oldPath = [], status = ''modified'',
     diff = ''+a { color: red }'', binary = False\<rparr>"

text \<open>A parser function that finds nothing, for closed instances.\<close>

definition finds_nothing :: pass where
  "finds_nothing d p = Inr []"

text \<open>A value for the member \<open>analyzeDiff\<close> of the \<open>utils\<close> export object; it is never called.\<close>

definition entry_point :: risk_function where
  "entry_point p cs = []"

text \<open>An AST tier that fails, and one that finds one change.\<close>

definition failing_ast :: ast_tier where
  "failing_ast p t d = Inl (Thrown ''Parser failed'')"


text \<open>The options of a run without and with \<open>--risk\<close>.\<close>

definition plain_run :: options where
  "plain_run = \<lparr>risk = False, targetBranch = None\<rparr>"

definition risk_run :: options where
  "risk_run = \<lparr>risk = True, targetBranch = None\<rparr>"

text \<open>A deleted artifact.\<close>

definition deleted_md :: diff_info where
  "deleted_md = \<lparr>path = ''notes.md'', newPath = [], oldPath = [], status = ''deleted'',
     diff = ''-old notes'', binary = False\<rparr>"

text \<open>A decimal literal beyond the range of a double: 310 nines, a point and a five.\<close>

definition overflowing_decimal_digits :: string where
  "overflowing_decimal_digits = replicate 310 (CHR ''9'')"

text \<open>Stylesheets with no \<open>display\<close>, with \<open>display: block\<close> twice and with \<open>position: fixed\<close> twice.\<close>

definition plain_boxes :: node where
  "plain_boxes = Root [Rule ''.a'' [Decl ''color'' ''red''], Rule ''.b'' [Decl ''color'' ''red'']]"

definition block_boxes :: node where
  "block_boxes = Root [Rule ''.a'' [Decl ''color'' ''red'', Decl ''display'' ''block''],
                       Rule ''.b'' [Decl ''color'' ''red'', Decl ''display'' ''block'']]"

definition fixed_boxes :: node where
  "fixed_boxes = Root [Rule ''.a'' [Decl ''color'' ''red'', Decl ''position'' ''fixed''],
                       Rule ''.b'' [Decl ''color'' ''red'', Decl ''position'' ''fixed'']]"

text \<open>Two functions of one name with different parameter lists.\<close>

definition dup_a :: func_info where
  "dup_a = \<lparr>name = ''helper'', async = False, params = [\<lparr>pname = ''a'', hasDefault = False\<rparr>],
     hasReturn = True, complexity = 1, callsAPI = False\<rparr>"

definition dup_b :: func_info where
  "dup_b = \<lparr>name = ''helper'', async = False, params = [\<lparr>pname = ''b'', hasDefault = False\<rparr>],
     hasReturn = True, complexity = 1, callsAPI = False\<rparr>"

text \<open>
  A structure with these two functions; a structure with two variables of one name and
  different kinds, and one with two destructuring declarations of different kinds (their
  names are undefined); a structure whose names are pairwise distinct.
\<close>

definition no_code :: code_structure where
  "no_code = \<lparr>all_functions = [], all_classes = [], all_imports = [], all_exports = [],
     all_variables = [], all_components = [], all_hooks = [], isReact = False\<rparr>"

definition same_name_functions :: code_structure where
  "same_name_functions = no_code\<lparr>all_functions := [dup_a, dup_b]\<rparr>"

definition same_name_variables :: code_structure where
  "same_name_variables =
     no_code\<lparr>all_variables := [\<lparr>var_name = Some ''x'', kind = ''const''\<rparr>,
                            \<lparr>var_name = Some ''x'', kind = ''let''\<rparr>]\<rparr>"

definition two_patterns :: code_structure where
  "two_patterns =
     no_code\<lparr>all_variables := [\<lparr>var_name = None, kind = ''const''\<rparr>,
                            \<lparr>var_name = None, kind = ''let''\<rparr>]\<rparr>"

definition tidy_module :: code_structure where
  "tidy_module =
     \<lparr>all_functions = [dup_a, login_old],
      all_classes = [\<lparr>class_name = ''Session'', isComponent = False,
                  methods = [\<lparr>method_name = Some ''open'', static = False\<rparr>,
                             \<lparr>method_name = Some ''close'', static = False\<rparr>]\<rparr>],
      all_imports = [\<lparr>source = ''react'', specifiers = [''React'', ''useState'']\<rparr>],
      all_exports = [\<lparr>export_type = ''default'', export_name = ''Session''\<rparr>],
      all_variables = [\<lparr>var_name = Some ''x'', kind = ''const''\<rparr>,
                   \<lparr>var_name = Some ''y'', kind = ''let''\<rparr>],
      all_components = [], all_hooks = [''useState'', ''useState''], isReact = True\<rparr>"

text \<open>A stylesheet with a declaration named like a member of \<open>Object.prototype\<close>.\<close>

definition constructor_sheet :: node where
  "constructor_sheet = Root [Rule ''.a'' [Decl ''constructor'' ''red'']]"

text \<open>The new \<open>login\<close> with one more branch.\<close>

definition login_heavier :: func_info where
  "login_heavier = login_new\<lparr>complexity := 4\<rparr>"

text \<open>Two versions of a stylesheet that differ in one font size and one colour.\<close>

definition small_font :: node where
  "small_font = Root [Rule ''.a'' [Decl ''font-size'' ''12px'', Decl ''color'' ''red'']]"

definition large_font :: node where
  "large_font = Root [Rule ''.a'' [Decl ''font-size'' ''14px'', Decl ''color'' ''blue'']]"

section \<open>Properties of the selector path\<close>

lemma path_loop_texts: "path_loop chain parts = spec_path_texts chain @ parts"
proof (induction chain arbitrary: parts)
  case Nil
  then show ?case by simp
next
  case (Cons n up)
  then show ?case by (cases n) simp_all
qed

lemma buildSelectorPath_texts: "buildSelectorPath chain = join '' > '' (spec_path_texts chain)"
  by (simp add: buildSelectorPath_def path_loop_texts)

lemma join_snoc: "join sep (xs @ [x]) = (if xs = [] then x else join sep xs @ sep @ x)"
  by (induction sep xs rule: join.induct) auto

lemma join_snoc2: "join sep (xs @ [x, y]) = join sep (xs @ [x]) @ sep @ y"
  using join_snoc [of sep "xs @ [x]" y] by simp

lemma buildSelectorPath_rule:
  "s \<noteq> [] \<Longrightarrow> buildSelectorPath (Rule s cs # up) =
     (if spec_path_texts up = [] then trim s else buildSelectorPath up @ '' > '' @ trim s)"
  by (simp add: buildSelectorPath_texts join_snoc)

lemma buildSelectorPath_no_parts: "spec_path_texts up = [] \<Longrightarrow> buildSelectorPath up = []"
  by (simp add: buildSelectorPath_texts)

text \<open>
  The key does not tell nesting from a descendant written with the child combinator: a
  top-level rule \<open>.a > .b\<close> and a rule \<open>.b\<close> nested in \<open>.a\<close> have the same key.
\<close>

lemma selector_path_collision:
  "buildSelectorPath [Rule ''.a > .b'' [], Root []]
     = buildSelectorPath [Rule ''.b'' [], Rule ''.a'' [], Root []]"
  by code_simp

text \<open>
  Claim C1. The identity key of a style rule is its full ancestor path: the trimmed
  selector text of every enclosing rule (and of the rule itself) and \<open>@name params\<close> of
  every enclosing at-rule, from the root down to the rule, joined by the separator
  \<open>" > "\<close>. Two rules with the same local selector get different keys when their parent
  rules have different selectors, when one of them has one more enclosing at-rule, and in
  general when their parents have different paths. \<open>.title\<close> under \<open>.card\<close> and \<open>.title\<close>
  under \<open>.header\<close> get the keys \<open>.card > .title\<close> and \<open>.header > .title\<close>, and the
  selector diff reports one as removed and the other as added instead of matching them;
  \<open>.a\<close> inside \<open>@media (min-width: 100px)\<close> gets the key
  \<open>@media (min-width: 100px) > .a\<close> and is reported as added next to the top-level \<open>.a\<close>
  of both versions, which is not reported.
\<close>

theorem selector_key_is_full_ancestor_path:
  "buildSelectorPath chain = join '' > '' (spec_path_texts chain)
   \<and> (s \<noteq> [] \<longrightarrow>
        buildSelectorPath [Rule s cs, Rule a xs, AtRule n p ds, Root rs]
          = ''@'' @ n @ '' '' @ p @ '' > '' @ (if a = [] then [] else trim a @ '' > '') @ trim s)
   \<and> (s \<noteq> [] \<and> a \<noteq> [] \<and> b \<noteq> [] \<and> trim a \<noteq> trim b \<longrightarrow>
        buildSelectorPath (Rule s ca # Rule a xs # up)
          \<noteq> buildSelectorPath (Rule s cb # Rule b ys # up))
   \<and> (s \<noteq> [] \<longrightarrow>
        buildSelectorPath (Rule s ca # AtRule n p ds # up) \<noteq> buildSelectorPath (Rule s cb # up))
   \<and> (s \<noteq> [] \<and> buildSelectorPath upa \<noteq> buildSelectorPath upb \<longrightarrow>
        buildSelectorPath (Rule s ca # upa) \<noteq> buildSelectorPath (Rule s cb # upb))
   \<and> map fullPath (extractSelectorsWithContext card_sheet) = [''.card'', ''.card > .title'']
   \<and> map fullPath (extractSelectorsWithContext header_sheet) = [''.header'', ''.header > .title'']
   \<and> map render (compareSelectorsWithContext (Some card_sheet) (Some header_sheet)) =
       [''Property added: selector .header'', ''Property added: selector .header > .title'',
        ''Property removed: selector .card'', ''Property removed: selector .card > .title'']
   \<and> map fullPath (extractSelectorsWithContext media_sheet)
       = [''.a'', ''@media (min-width: 100px) > .a'', ''@media (min-width: 100px) > .nav'',
          ''@media (min-width: 100px) > .nav > .item'']
   \<and> map render (compareSelectorsWithContext (Some plain_sheet) (Some media_sheet)) =
       [''Property added: selector @media (min-width: 100px) > .a'',
        ''Property added: selector @media (min-width: 100px) > .nav'',
        ''Property added: selector @media (min-width: 100px) > .nav > .item'']
   \<and> map render (compareSelectorsWithContext (Some media_sheet) (Some plain_sheet)) =
       [''Property removed: selector @media (min-width: 100px) > .a'',
        ''Property removed: selector @media (min-width: 100px) > .nav'',
        ''Property removed: selector @media (min-width: 100px) > .nav > .item'']"
proof (intro conjI impI)
  show "buildSelectorPath chain = join '' > '' (spec_path_texts chain)"
    by (rule buildSelectorPath_texts)
next
  assume "s \<noteq> []"
  then show "buildSelectorPath [Rule s cs, Rule a xs, AtRule n p ds, Root rs]
      = ''@'' @ n @ '' '' @ p @ '' > '' @ (if a = [] then [] else trim a @ '' > '') @ trim s"
    by (simp add: buildSelectorPath_def)
next
  assume h: "s \<noteq> [] \<and> a \<noteq> [] \<and> b \<noteq> [] \<and> trim a \<noteq> trim b"
  show "buildSelectorPath (Rule s ca # Rule a xs # up)
      \<noteq> buildSelectorPath (Rule s cb # Rule b ys # up)"
  proof
    assume "buildSelectorPath (Rule s ca # Rule a xs # up)
        = buildSelectorPath (Rule s cb # Rule b ys # up)"
    with h have "join '' > '' (spec_path_texts up @ [trim a, trim s])
        = join '' > '' (spec_path_texts up @ [trim b, trim s])"
      by (simp add: buildSelectorPath_texts)
    then have "join '' > '' (spec_path_texts up @ [trim a])
        = join '' > '' (spec_path_texts up @ [trim b])"
      by (simp add: join_snoc2)
    then have "trim a = trim b"
      by (simp add: join_snoc split: if_splits)
    with h show False by simp
  qed
next
  assume h: "s \<noteq> []"
  show "buildSelectorPath (Rule s ca # AtRule n p ds # up) \<noteq> buildSelectorPath (Rule s cb # up)"
  proof
    assume "buildSelectorPath (Rule s ca # AtRule n p ds # up)
        = buildSelectorPath (Rule s cb # up)"
    with h have "join '' > '' (spec_path_texts up @ [''@'' @ n @ '' '' @ p, trim s])
        = join '' > '' (spec_path_texts up @ [trim s])"
      by (simp add: buildSelectorPath_texts)
    then have "length (join '' > '' (spec_path_texts up @ [''@'' @ n @ '' '' @ p, trim s]))
        = length (join '' > '' (spec_path_texts up @ [trim s]))"
      by simp
    then show False
      by (simp add: join_snoc2) (simp add: join_snoc split: if_splits)
  qed
next
  assume a: "s \<noteq> [] \<and> buildSelectorPath upa \<noteq> buildSelectorPath upb"
  show "buildSelectorPath (Rule s ca # upa) \<noteq> buildSelectorPath (Rule s cb # upb)"
  proof
    assume eq: "buildSelectorPath (Rule s ca # upa) = buildSelectorPath (Rule s cb # upb)"
    consider (both) "spec_path_texts upa \<noteq> []" "spec_path_texts upb \<noteq> []"
      | (left) "spec_path_texts upa = []" "spec_path_texts upb \<noteq> []"
      | (right) "spec_path_texts upa \<noteq> []" "spec_path_texts upb = []"
      | (none) "spec_path_texts upa = []" "spec_path_texts upb = []"
      by blast
    then show False
    proof cases
      case both
      with a eq show False by (simp add: buildSelectorPath_rule)
    next
      case left
      with a eq have "length (trim s) = length (buildSelectorPath upb @ '' > '' @ trim s)"
        by (simp add: buildSelectorPath_rule)
      then show False by simp
    next
      case right
      with a eq have "length (buildSelectorPath upa @ '' > '' @ trim s) = length (trim s)"
        by (simp add: buildSelectorPath_rule)
      then show False by simp
    next
      case none
      with a show False by (simp add: buildSelectorPath_no_parts)
    qed
  qed
next
  show "map fullPath (extractSelectorsWithContext card_sheet) = [''.card'', ''.card > .title'']"
    by code_simp
next
  show "map fullPath (extractSelectorsWithContext header_sheet) =
      [''.header'', ''.header > .title'']"
    by code_simp
next
  show "map render (compareSelectorsWithContext (Some card_sheet) (Some header_sheet)) =
       [''Property added: selector .header'', ''Property added: selector .header > .title'',
        ''Property removed: selector .card'', ''Property removed: selector .card > .title'']"
    by code_simp
next
  show "map fullPath (extractSelectorsWithContext media_sheet)
       = [''.a'', ''@media (min-width: 100px) > .a'', ''@media (min-width: 100px) > .nav'',
          ''@media (min-width: 100px) > .nav > .item'']"
    by code_simp
next
  show "map render (compareSelectorsWithContext (Some plain_sheet) (Some media_sheet)) =
       [''Property added: selector @media (min-width: 100px) > .a'',
        ''Property added: selector @media (min-width: 100px) > .nav'',
        ''Property added: selector @media (min-width: 100px) > .nav > .item'']"
    by code_simp
next
  show "map render (compareSelectorsWithContext (Some media_sheet) (Some plain_sheet)) =
       [''Property removed: selector @media (min-width: 100px) > .a'',
        ''Property removed: selector @media (min-width: 100px) > .nav'',
        ''Property removed: selector @media (min-width: 100px) > .nav > .item'']"
    by code_simp
qed

theorem selector_key_is_full_ancestor_path_witness:
  "''.title'' \<noteq> [] \<and> ''.card'' \<noteq> [] \<and> ''.header'' \<noteq> [] \<and> trim ''.card'' \<noteq> trim ''.header''
   \<and> buildSelectorPath [Rule ''.card'' [], Root []] \<noteq> buildSelectorPath [Rule ''.header'' [], Root []]
   \<and> buildSelectorPath [Rule ''.title'' [], Rule ''.card'' [], AtRule ''media'' ''print'' [], Root []]
       = ''@media print > .card > .title''
   \<and> buildSelectorPath [Rule ''.title'' [], Rule ''.card'' [], Root []]
       \<noteq> buildSelectorPath [Rule ''.title'' [], Rule ''.header'' [], Root []]
   \<and> buildSelectorPath [Rule ''.title'' [], AtRule ''media'' ''print'' [], Root []]
       \<noteq> buildSelectorPath [Rule ''.title'' [], Root []]"
proof -
  have h1: "''.title'' \<noteq> []" "''.card'' \<noteq> []" "''.header'' \<noteq> []" by simp_all
  have h2: "trim ''.card'' \<noteq> trim ''.header''" by code_simp
  have h3: "buildSelectorPath [Rule ''.card'' [], Root []]
      \<noteq> buildSelectorPath [Rule ''.header'' [], Root []]"
    by code_simp
  have t: "trim ''.card'' = ''.card''" "trim ''.title'' = ''.title''" by code_simp+
  note inst = selector_key_is_full_ancestor_path
    [where s = "''.title''" and a = "''.card''" and b = "''.header''" and n = "''media''"
       and p = "''print''" and cs = "[]" and xs = "[]" and ys = "[]" and ds = "[]"
       and rs = "[]" and ca = "[]" and cb = "[]" and up = "[Root []]"
       and upa = "[Rule ''.card'' [], Root []]" and upb = "[Rule ''.header'' [], Root []]"]
  from inst h1 have k: "buildSelectorPath
        [Rule ''.title'' [], Rule ''.card'' [], AtRule ''media'' ''print'' [], Root []]
      = ''@media print > .card > .title''"
    by (simp add: t)
  from inst h1 h2 have d1: "buildSelectorPath [Rule ''.title'' [], Rule ''.card'' [], Root []]
       \<noteq> buildSelectorPath [Rule ''.title'' [], Rule ''.header'' [], Root []]"
    by blast
  from inst h1 have d2: "buildSelectorPath [Rule ''.title'' [], AtRule ''media'' ''print'' [], Root []]
       \<noteq> buildSelectorPath [Rule ''.title'' [], Root []]"
    by blast
  from h1 h2 h3 k d1 d2 show ?thesis by blast
qed

section \<open>The stylesheet entry point never fails\<close>

lemma parseCSSWithDiffFallback_nonempty: "parseCSSWithDiffFallback d f \<noteq> []"
  unfolding parseCSSWithDiffFallback_def Let_def
  by (simp split: if_splits)

text \<open>
  Claim C10. For every non-empty diff string and every file path, \<open>parseCSS\<close> does not
  throw and returns a non-empty list of change strings: the changes of the full-file pass
  when that pass returns some, otherwise (the pass threw or returned nothing) the result of
  the diff-text fallback; and if the fallback itself throws, the single record
  \<open>Component visual changes detected\<close>.
\<close>

theorem parseCSS_total_nonempty:
  "(d \<noteq> [] \<longrightarrow>
     (\<exists>cs. parseCSS fullFileAST (DiffString d) filepath = Inr cs \<and> cs \<noteq> []
        \<and> cs = (case fullFileAST d filepath of
                  Inr a \<Rightarrow> if a \<noteq> [] then a else parseCSSWithDiffFallback d filepath
                | Inl e \<Rightarrow> parseCSSWithDiffFallback d filepath)))
   \<and> (d \<noteq> [] \<and> (\<forall>a. fullFileAST d filepath \<noteq> Inr a \<or> a = [])
        \<and> diffFallback d filepath = Inl e'
        \<longrightarrow> parseCSS_with fullFileAST diffFallback (DiffString d) filepath
              = Inr [generic_record])"
  by (auto simp: parseCSS_def parseCSS_with_def try_catch_def parseCSSWithDiffFallback_nonempty
           split: sum.splits)

theorem parseCSS_total_nonempty_witness:
  "''+a { color: red }'' \<noteq> []
   \<and> parseCSS (\<lambda>d f. Inl (Thrown ''Could not parse either version of the file''))
       (DiffString ''+a { color: red }'') ''style.css'' = Inr [''Property modified: color'']
   \<and> parseCSS_with (\<lambda>d f. Inr []) (\<lambda>d f. Inl TypeError)
       (DiffString ''+a { color: red }'') ''style.css'' = Inr [generic_record]"
proof -
  have n: "''+a { color: red }'' \<noteq> []" by simp
  have f: "parseCSSWithDiffFallback ''+a { color: red }'' ''style.css''
      = [''Property modified: color'']"
    by code_simp
  from parseCSS_total_nonempty
    [of "''+a { color: red }''"
        "\<lambda>d f. Inl (Thrown ''Could not parse either version of the file'')" "''style.css''"] n f
  have a: "parseCSS (\<lambda>d f. Inl (Thrown ''Could not parse either version of the file''))
       (DiffString ''+a { color: red }'') ''style.css'' = Inr [''Property modified: color'']"
    by auto
  from parseCSS_total_nonempty
    [of "''+a { color: red }''" "\<lambda>d f. Inr []" "''style.css''" "\<lambda>d f. Inl TypeError" TypeError]
  have b: "parseCSS_with (\<lambda>d f. Inr []) (\<lambda>d f. Inl TypeError)
       (DiffString ''+a { color: red }'') ''style.css'' = Inr [generic_record]"
    by simp
  from n a b show ?thesis by blast
qed

section \<open>One result per artifact\<close>



lemma risk_of_unrequested: "\<not> risk opts \<Longrightarrow> risk_of b opts p cs = Inr None"
  by (simp add: risk_of_def)

lemma risk_of_bound:
  "assessRisk_binding b = Some f \<Longrightarrow>
     risk_of b opts p cs = Inr (if risk opts then Some (f p cs) else None)"
  by (simp add: risk_of_def call_risk_def)








text \<open>
  What an artifact receives whose tiers all fail: the generic line count of its diff text
  (or \<open>Code modified\<close> when the diff text has no added or removed line), with the method
  \<open>generic-fallback\<close>. First for the code types, then for the types with one parser.
\<close>

lemma failed_code_artifact_gets_line_count:
  assumes "status d \<notin> {''added'', ''deleted'', ''renamed''}" and "\<not> binary d"
    and "detectFileType (path d) (diff d) \<in> {''javascript'', ''typescript'', ''react''}"
    and "analyzeFile (path d) (branch_of opts) d = Inl e"
    and "(if detectFileType (path d) (diff d) = ''react''
          then call (parseReact b) (diff d) (path d)
          else call (parseJS b) (diff d) (path d)) = Inl e'"
    and "risk_of b opts (path d) (parseGeneric (diff d)) = Inr r"
  shows "analyze_artifact b analyzeFile opts d =
     Inr \<lparr>file_path = path d, result_status = ''modified'',
          ftype = detectFileType (path d) (diff d),
          changes = (if parseGeneric (diff d) \<noteq> [] then parseGeneric (diff d)
                     else [''Code modified'']),
          parseMethod = ''generic-fallback'', result_risk = r\<rparr>"
proof -
  have t: "code_tiers b analyzeFile opts (detectFileType (path d) (diff d)) d
      = Inr (parseGeneric (diff d), ''generic-fallback'')"
    using assms(4,5) by (simp add: code_tiers_def try_catch_def)
  from assms(1,2,3,6) t show ?thesis
    by (auto simp: analyze_artifact_def Let_def)
qed

lemma failed_other_artifact_gets_line_count:
  assumes "status d \<notin> {''added'', ''deleted'', ''renamed''}" and "\<not> binary d"
    and "detectFileType (path d) (diff d) \<in> {''html'', ''css'', ''scss'', ''jquery''}"
    and "(if detectFileType (path d) (diff d) = ''html''
          then call (parseHTML b) (diff d) (path d)
          else if detectFileType (path d) (diff d) = ''jquery''
          then call (parseJQuery b) (diff d) (path d)
          else call (parseCSS_binding b) (diff d) (path d)) = Inl e"
    and "risk_of b opts (path d) (parseGeneric (diff d)) = Inr r"
  shows "analyze_artifact b analyzeFile opts d =
     Inr \<lparr>file_path = path d, result_status = ''modified'',
          ftype = detectFileType (path d) (diff d),
          changes = (if parseGeneric (diff d) \<noteq> [] then parseGeneric (diff d)
                     else [''Code modified'']),
          parseMethod = ''generic-fallback'', result_risk = r\<rparr>"
proof -
  have t: "other_tiers b (detectFileType (path d) (diff d)) d
      = Inr (parseGeneric (diff d), ''generic-fallback'')"
    using assms(3,4) by (auto simp: other_tiers_def try_catch_def split: if_splits)
  from assms(1,2,3,5) t show ?thesis
    by (auto simp: analyze_artifact_def Let_def)
qed

text \<open>
  With the object of the first assignment of \<open>src/utils.js\<close> (\<open>{ assessRisk }\<close>) in place of
  the last one, a run with the flag returns, with a risk for every artifact.
\<close>

lemma risk_with_exported_assessRisk:
  "analyzeChanges
     (require_bindings (htmlParser_exports finds_nothing)
        (cssParser_exports (\<lambda>d p. Inl (Thrown ''PostCSS failed'')))
        (jqueryParser_exports finds_nothing) (jsParser_exports finds_nothing)
        (reactParser_exports finds_nothing) [(''assessRisk'', assessRisk)])
     failing_ast risk_run [broken_js, style_css, deleted_md]
   = Inr [\<lparr>file_path = ''src/app.js'', result_status = ''modified'', ftype = ''javascript'',
            changes = [''Added 1 lines''], parseMethod = ''generic-fallback'',
            result_risk = Some ''LOW''\<rparr>,
          \<lparr>file_path = ''src/style.css'', result_status = ''modified'', ftype = ''css'',
            changes = [''Added 1 lines''], parseMethod = ''generic-fallback'',
            result_risk = Some ''LOW''\<rparr>,
          \<lparr>file_path = ''notes.md'', result_status = ''deleted'', ftype = ''markdown'',
            changes = [''File deleted''], parseMethod = [], result_risk = Some ''LOW''\<rparr>]"
  by code_simp






section \<open>The pattern tier of plain JavaScript and TypeScript\<close>

text \<open>
  Claim C8. The claim: when the AST tier throws for a plain JavaScript or TypeScript
  artifact, the controller returns the pattern tier's result (the regex scan of the diff
  text) and reaches the generic line count only if the pattern pass itself fails. What the
  code does: \<open>changeAnalyzer.js\<close> binds \<open>parseJS\<close> from \<open>./parser/jsParser\<close>, whose export
  object has the single member \<open>parseJSWithAST\<close>, so the binding is undefined, the call
  throws, and every such artifact ends in the generic tier with the method
  \<open>generic-fallback\<close> (and, in a run that asks for the risk, in the \<open>TypeError\<close> of the
  unbound \<open>assessRisk\<close>).
\<close>

theorem plain_js_falls_to_generic:
  assumes "status d \<notin> {''added'', ''deleted'', ''renamed''}" and "\<not> binary d"
    and "detectFileType (path d) (diff d) \<in> {''javascript'', ''typescript''}"
    and "analyzeFile (path d) (branch_of opts) d = Inl e"
  shows "analyze_artifact
           (repository_bindings html css js_of_jquery_file jsWithAST react analyzeDiff)
           analyzeFile opts d
         = (if risk opts then Inl TypeError
            else Inr \<lparr>file_path = path d, result_status = ''modified'',
                      ftype = detectFileType (path d) (diff d),
                      changes = (if parseGeneric (diff d) \<noteq> [] then parseGeneric (diff d)
                                 else [''Code modified'']),
                      parseMethod = ''generic-fallback'', result_risk = None\<rparr>)"
  using assms
  by (auto simp: analyze_artifact_def code_tiers_def try_catch_def Let_def call_def
        repository_bindings_def require_bindings_def jsParser_exports_def utils_exports_def
        risk_of_def call_risk_def)

theorem plain_js_falls_to_generic_witness:
  "status broken_js \<notin> {''added'', ''deleted'', ''renamed''} \<and> \<not> binary broken_js
   \<and> detectFileType (path broken_js) (diff broken_js) \<in> {''javascript'', ''typescript''}
   \<and> failing_ast (path broken_js) (branch_of plain_run) broken_js = Inl (Thrown ''Parser failed'')
   \<and> analyze_artifact
       (repository_bindings finds_nothing finds_nothing finds_nothing finds_nothing
          finds_nothing entry_point)
       failing_ast plain_run broken_js
     = Inr \<lparr>file_path = ''src/app.js'', result_status = ''modified'', ftype = ''javascript'',
            changes = [''Added 1 lines''], parseMethod = ''generic-fallback'',
            result_risk = None\<rparr>"
proof -
  have t: "detectFileType (path broken_js) (diff broken_js) = ''javascript''"
    unfolding broken_js_def by code_simp
  have g: "parseGeneric (diff broken_js) = [''Added 1 lines'']"
    unfolding broken_js_def by code_simp
  have s: "status broken_js \<notin> {''added'', ''deleted'', ''renamed''}" "\<not> binary broken_js"
    by (simp_all add: broken_js_def)
  have f: "failing_ast (path broken_js) (branch_of plain_run) broken_js
      = Inl (Thrown ''Parser failed'')"
    by (simp add: failing_ast_def)
  have p: "path broken_js = ''src/app.js''" "\<not> risk plain_run"
    by (simp_all add: broken_js_def plain_run_def)
  from plain_js_falls_to_generic [of broken_js failing_ast plain_run "Thrown ''Parser failed''"
      finds_nothing finds_nothing finds_nothing finds_nothing finds_nothing entry_point]
    s t f
  have "analyze_artifact
       (repository_bindings finds_nothing finds_nothing finds_nothing finds_nothing
          finds_nothing entry_point)
       failing_ast plain_run broken_js
     = Inr \<lparr>file_path = ''src/app.js'', result_status = ''modified'', ftype = ''javascript'',
            changes = [''Added 1 lines''], parseMethod = ''generic-fallback'',
            result_risk = None\<rparr>"
    by (simp add: g p t)
  with s t f show ?thesis by simp
qed

section \<open>Grid column counting on nested functions\<close>

text \<open>
  Claim C4. The three forms of the specification count as stated: \<open>repeat(3, 1fr)\<close> is 3,
  \<open>repeat(auto-fill, 100px)\<close> is the sentinel \<open>-1\<close>, and
  \<open>200px minmax(100px,1fr) 200px\<close> is 3. The product rule fails when the repeated
  template contains a function: the lazy group stops at the first closing parenthesis, so
  for \<open>repeat(2, minmax(100px, 1fr))\<close>, whose inner template counts as one column, the
  result is 5 (3 without the space after the comma) and not 2. The older variant counts the
  pieces between spaces and gets 2 for \<open>repeat(3, 1fr)\<close>.
\<close>

theorem grid_columns_nested_minmax:
  "countGridColumns ''repeat(2, minmax(100px, 1fr))'' = 5
   \<and> countGridColumns ''repeat(2, minmax(100px,1fr))'' = 3
   \<and> countColumnsInTemplate ''minmax(100px, 1fr)'' = 1
   \<and> countGridColumns ''repeat(3, 1fr)'' = 3
   \<and> countGridColumns ''repeat(auto-fill, 100px)'' = - 1
   \<and> countGridColumns ''200px minmax(100px,1fr) 200px'' = 3
   \<and> grid_columns_old ''repeat(3, 1fr)'' = 2"
  by code_simp

section \<open>The normalizer on decimals beyond the double range\<close>

lemma bit_length_bounds: "n > 0 \<Longrightarrow> 2 ^ (bit_length n - 1) \<le> n \<and> n < 2 ^ bit_length n"
proof (induction n rule: bit_length.induct)
  case (1 n)
  show ?case
  proof (cases "n div 2 = 0")
    case True
    with 1(2) have "n = 1" by auto
    then show ?thesis by (simp add: bit_length.simps)
  next
    case False
    then have pos: "n div 2 > 0" by simp
    from 1(1) 1(2) pos
    have ih: "2 ^ (bit_length (n div 2) - 1) \<le> n div 2" "n div 2 < 2 ^ bit_length (n div 2)"
      by auto
    have bl: "bit_length n = Suc (bit_length (n div 2))"
      using 1(2) by (subst bit_length.simps) simp
    have blpos: "bit_length (n div 2) > 0"
      using pos by (subst bit_length.simps) simp
    have "2 ^ (bit_length n - 1) = 2 * 2 ^ (bit_length (n div 2) - 1)"
      using bl blpos by (cases "bit_length (n div 2)") simp_all
    also have "\<dots> \<le> 2 * (n div 2)" using ih(1) by simp
    also have "\<dots> \<le> n" by simp
    finally have lo: "2 ^ (bit_length n - 1) \<le> n" .
    have "n < 2 * (n div 2) + 2" by presburger
    also have "\<dots> \<le> 2 * 2 ^ bit_length (n div 2)" using ih(2) by simp
    finally have hi: "n < 2 ^ bit_length n" using bl by simp
    from lo hi show ?thesis by simp
  qed
qed

lemma floor_log2_large:
  assumes b: "b > 0" and big: "b * 2 ^ 1024 \<le> a"
  shows "floor_log2 a b \<ge> 1024 \<and> b * 2 ^ nat (floor_log2 a b) \<le> a"
proof -
  have a: "a > 0" using b big by (metis gr0I mult_is_0 not_less_zero power_not_zero zero_neq_numeral le_zero_eq)
  note ba = bit_length_bounds [OF a] and bb = bit_length_bounds [OF b]
  have "(2::nat) ^ (bit_length b - 1) * 2 ^ 1024 \<le> b * 2 ^ 1024" using bb by simp
  also have "\<dots> \<le> a" by (rule big)
  also have "\<dots> < 2 ^ bit_length a" using ba by simp
  finally have "(2::nat) ^ (bit_length b - 1 + 1024) < 2 ^ bit_length a"
    by (simp add: power_add)
  then have lt: "bit_length b - 1 + 1024 < bit_length a"
    by (simp only: power_strict_increasing_iff) 
  have bpos: "bit_length b > 0" using b by (subst bit_length.simps) simp
  define e0 where "e0 = int (bit_length a) - int (bit_length b)"
  have e0: "e0 \<ge> 1024" using lt bpos by (simp add: e0_def)
  have ne0: "nat e0 = bit_length a - bit_length b" by (simp add: e0_def)
  show ?thesis
  proof (cases "a \<ge> b * 2 ^ nat e0")
    case True
    then have "floor_log2 a b = e0" using e0 by (simp add: floor_log2_def e0_def Let_def)
    with True e0 show ?thesis by simp
  next
    case False
    then have f: "floor_log2 a b = e0 - 1" using e0 by (simp add: floor_log2_def e0_def Let_def)
    have "e0 \<noteq> 1024" using False big by auto
    with e0 have ge: "e0 - 1 \<ge> 1024" by simp
    have n1: "nat (e0 - 1) = bit_length a - bit_length b - 1" by (simp add: e0_def)
    have "b * 2 ^ nat (e0 - 1) < 2 ^ bit_length b * 2 ^ (bit_length a - bit_length b - 1)"
      using bb n1 by simp
    also have "\<dots> = 2 ^ (bit_length b + (bit_length a - bit_length b - 1))"
      by (simp add: power_add)
    also have "bit_length b + (bit_length a - bit_length b - 1) = bit_length a - 1"
      using lt bpos by simp
    finally have "b * 2 ^ nat (e0 - 1) \<le> a" using ba by simp
    with f ge show ?thesis by simp
  qed
qed

lemma round_half_even_ge: "num div den \<le> round_half_even num den"
  by (simp add: round_half_even_def Let_def)

lemma to_double_overflow:
  assumes b: "b > 0" and big: "b * 2 ^ 1024 \<le> a"
  shows "to_double a b = Infinity"
proof -
  define e where "e = floor_log2 a b"
  from floor_log2_large [OF b big]
  have e: "e \<ge> 1024" and le: "b * 2 ^ nat e \<le> a" by (simp_all add: e_def)
  have a: "a \<noteq> 0" using b big by auto
  define sh where "sh = nat (e - 52)"
  have ne: "nat e = sh + 52" using e by (simp add: sh_def)
  have "(b * 2 ^ sh) * 2 ^ 52 \<le> a" using le ne by (simp add: power_add mult.assoc)
  then have "2 ^ 52 \<le> a div (b * 2 ^ sh)"
    using b by (simp add: less_eq_div_iff_mult_less_eq mult.commute)
  then have m: "2 ^ 52 \<le> round_half_even a (b * 2 ^ sh)"
    using round_half_even_ge [of a "b * 2 ^ sh"] by linarith
  have "(2::nat) ^ 1024 \<le> 2 ^ (52 + sh)" using e ne by (intro power_increasing) simp_all
  also have "\<dots> = 2 ^ 52 * 2 ^ sh" by (simp add: power_add)
  also have "\<dots> \<le> round_half_even a (b * 2 ^ sh) * 2 ^ sh" using m by simp
  finally have inf: "2 ^ 1024 \<le> round_half_even a (b * 2 ^ sh) * 2 ^ sh" .
  have pe: "max e (- 1022) = e" using e by simp
  have shn: "e - 52 \<ge> 0" using e by simp
  show ?thesis
    using a inf shn
    by (simp add: to_double_def e_def [symmetric] pe Let_def sh_def [symmetric])
qed


lemma normalizeValue_prop_unused: "normalizeValue v p = normalizeValue v q"
  by (simp add: normalizeValue_def)

lemma digit_cases:
  "is_digit c \<longleftrightarrow> c = CHR ''0'' \<or> c = CHR ''1'' \<or> c = CHR ''2'' \<or> c = CHR ''3'' \<or> c = CHR ''4''
     \<or> c = CHR ''5'' \<or> c = CHR ''6'' \<or> c = CHR ''7'' \<or> c = CHR ''8'' \<or> c = CHR ''9''"
  by (auto simp: is_digit_def)

lemma digit_not_space: "is_digit c \<Longrightarrow> \<not> is_space c"
  unfolding is_digit_def is_space_def by auto

lemma lower_char_other: "c \<notin> set upper_letters \<Longrightarrow> lower_char c = c"
proof -
  assume c: "c \<notin> set upper_letters"
  have "length upper_letters = length lower_letters"
    by (simp add: upper_letters_def lower_letters_def)
  then have "map_of (zip upper_letters lower_letters) c = None"
    using c by (simp add: map_of_zip_is_None)
  then show ?thesis by (simp add: lower_char_def)
qed

lemma digit_not_upper: "is_digit c \<Longrightarrow> c \<notin> set upper_letters"
  unfolding is_digit_def upper_letters_def by auto

lemma digit_lower: "is_digit c \<Longrightarrow> lower_char c = c"
  by (simp add: lower_char_other digit_not_upper)

lemma dot_facts: "\<not> is_digit (CHR ''.'')" "\<not> is_space (CHR ''.'')" "lower_char (CHR ''.'') = CHR ''.''"
  by (simp_all add: is_digit_def is_space_def lower_char_other upper_letters_def)

lemma trim_id: "s \<noteq> [] \<Longrightarrow> \<not> is_space (hd s) \<Longrightarrow> \<not> is_space (last s) \<Longrightarrow> trim s = s"
proof -
  assume s: "s \<noteq> []" and h: "\<not> is_space (hd s)" and l: "\<not> is_space (last s)"
  from s h have 1: "dropWhile is_space s = s" by (cases s) simp_all
  from s l have 2: "dropWhile is_space (rev s) = rev s"
    by (cases "rev s") (simp_all add: last_rev [symmetric] hd_rev)
  show ?thesis by (simp add: trim_def 1 2)
qed

lemma decimal_shape:
  assumes ds: "list_all is_digit ds" and fs: "list_all is_digit fs" and ne: "fs \<noteq> []"
  shows "trim (ds @ ''.'' @ fs) = ds @ ''.'' @ fs"
    and "toLowerCase (ds @ ''.'' @ fs) = ds @ ''.'' @ fs"
    and "\<not> is_hex3 (ds @ ''.'' @ fs)" and "\<not> is_hex6 (ds @ ''.'' @ fs)"
    and "is_decimal (ds @ ''.'' @ fs)"
    and "parseFloat (ds @ ''.'' @ fs) = to_double (digits_value (ds @ fs)) (10 ^ length fs)"
proof -
  have hd_ok: "\<not> is_space (hd (ds @ ''.'' @ fs))"
    using ds by (cases ds) (simp_all add: dot_facts digit_not_space)
  have "last (ds @ ''.'' @ fs) = last fs" using ne by simp
  moreover have "is_digit (last fs)" using fs ne by (simp add: list_all_iff)
  ultimately have last_ok: "\<not> is_space (last (ds @ ''.'' @ fs))"
    by (simp add: digit_not_space)
  show "trim (ds @ ''.'' @ fs) = ds @ ''.'' @ fs"
    using hd_ok last_ok by (intro trim_id) simp_all
  show "toLowerCase (ds @ ''.'' @ fs) = ds @ ''.'' @ fs"
    using ds fs by (simp add: toLowerCase_def list_all_iff digit_lower dot_facts map_idI)
  have hd_no_hash: "hd (ds @ ''.'' @ fs) \<noteq> CHR ''#''"
    using ds by (cases ds) (auto simp: digit_cases)
  show "\<not> is_hex3 (ds @ ''.'' @ fs)" using hd_no_hash by (simp add: is_hex3_def)
  show "\<not> is_hex6 (ds @ ''.'' @ fs)" using hd_no_hash by (simp add: is_hex6_def)
  have tw: "takeWhile is_digit (ds @ CHR ''.'' # fs) = ds"
    using ds by (simp add: takeWhile_tail dot_facts list_all_iff)
  show "is_decimal (ds @ ''.'' @ fs)"
    using fs ne by (simp add: is_decimal_def tw Let_def)
  show "parseFloat (ds @ ''.'' @ fs) = to_double (digits_value (ds @ fs)) (10 ^ length fs)"
    by (simp add: parseFloat_def tw Let_def)
qed

lemma normalizeValue_Infinity: "normalizeValue ''Infinity'' p = ''infinity''"
proof -
  have "normalizeValue ''Infinity'' [] = ''infinity''" by code_simp
  then show ?thesis using normalizeValue_prop_unused by metis
qed


text \<open>
  Claim C7. The normalizer is not idempotent on every input: a bare decimal whose value is
  at least \<open>2^1024\<close> is read as the infinite double, \<open>toFixed(2)\<close> prints it as
  \<open>Infinity\<close>, and normalizing that text again lower-cases it to \<open>infinity\<close>.
\<close>

theorem normalizeValue_overflow_not_idempotent:
  assumes "list_all is_digit ds" and "list_all is_digit fs" and "fs \<noteq> []"
    and "10 ^ length fs * 2 ^ 1024 \<le> digits_value (ds @ fs)"
  shows "normalizeValue (ds @ ''.'' @ fs) p = ''Infinity''
     \<and> normalizeValue (normalizeValue (ds @ ''.'' @ fs) p) p = ''infinity''
     \<and> normalizeValue (normalizeValue (ds @ ''.'' @ fs) p) p \<noteq> normalizeValue (ds @ ''.'' @ fs) p"
proof -
  note sh = decimal_shape [OF assms(1-3)]
  have "to_double (digits_value (ds @ fs)) (10 ^ length fs) = Infinity"
    using assms(4) by (intro to_double_overflow) simp_all
  then have "normalizeValue (ds @ ''.'' @ fs) p = ''Infinity''"
    using sh by (simp add: normalizeValue_def Let_def)
  then show ?thesis by (simp add: normalizeValue_Infinity)
qed

lemma digits_value_snoc: "digits_value (xs @ [c]) = 10 * digits_value xs + digit_val c"
  by (simp add: digits_value_def)

lemma digits_value_nines: "digits_value (replicate n (CHR ''9'')) + 1 = 10 ^ n"
proof (induction n)
  case 0
  then show ?case by (simp add: digits_value_def)
next
  case (Suc n)
  have "replicate (Suc n) (CHR ''9'') = replicate n (CHR ''9'') @ [CHR ''9'']"
    by (simp add: replicate_append_same)
  then have "digits_value (replicate (Suc n) (CHR ''9'')) = 10 * digits_value (replicate n (CHR ''9'')) + 9"
    by (simp only: digits_value_snoc) (simp add: digit_val_def)
  with Suc show ?case by simp
qed

lemma overflowing_value:
  "10 ^ length ''5'' * 2 ^ 1024 \<le> digits_value (replicate 310 (CHR ''9'') @ ''5'')"
proof -
  define R where "R = replicate 310 (CHR ''9'')"
  have five: "digit_val (CHR ''5'') = 5" by (simp add: digit_val_def)
  have a: "digits_value (R @ [CHR ''5'']) = 10 * digits_value R + 5"
    by (simp only: digits_value_snoc five)
  have b: "digits_value R + 1 = 10 ^ 310"
    unfolding R_def by (rule digits_value_nines)
  have c: "(10::nat) * 2 ^ 1024 \<le> 10 * (10 ^ 310 - 1) + 5" by simp
  have d: "digits_value R = 10 ^ 310 - 1" using b by (metis add_diff_cancel_right')
  have "(10::nat) * 2 ^ 1024 \<le> digits_value (R @ [CHR ''5''])"
    unfolding a d by (rule c)
  then have "10 ^ length ''5'' * 2 ^ 1024 \<le> digits_value (R @ ''5'')" by simp
  then show ?thesis unfolding R_def .
qed

lemma replicate_digits: "is_digit c \<Longrightarrow> list_all is_digit (replicate n c)"
  by (induction n) simp_all


theorem normalizeValue_overflow_not_idempotent_witness:
  "list_all is_digit overflowing_decimal_digits \<and> list_all is_digit ''5'' \<and> ''5'' \<noteq> []
   \<and> 10 ^ length ''5'' * 2 ^ 1024 \<le> digits_value (overflowing_decimal_digits @ ''5'')
   \<and> normalizeValue (overflowing_decimal_digits @ ''.'' @ ''5'') ''width'' = ''Infinity''
   \<and> normalizeValue (normalizeValue (overflowing_decimal_digits @ ''.'' @ ''5'') ''width'') ''width''
       = ''infinity''"
proof -
  have d: "list_all is_digit overflowing_decimal_digits"
    unfolding overflowing_decimal_digits_def by (rule replicate_digits) (simp add: is_digit_def)
  have f: "list_all is_digit ''5''" "''5'' \<noteq> []" by (simp_all add: is_digit_def)
  have v: "10 ^ length ''5'' * 2 ^ 1024 \<le> digits_value (overflowing_decimal_digits @ ''5'')"
    unfolding overflowing_decimal_digits_def by (rule overflowing_value)
  from normalizeValue_overflow_not_idempotent [OF d f v, of "''width''"] d f v
  show ?thesis by blast
qed

text \<open>The literal forms of the specification and their fixed points.\<close>

lemma normalizeValue_literal_forms:
  "normalizeValue ''#ABC'' ''color'' = ''#aabbcc''
   \<and> normalizeValue ''#aabbcc'' ''color'' = ''#aabbcc''
   \<and> normalizeValue ''0px'' ''margin'' = ''0''
   \<and> normalizeValue ''0'' ''margin'' = ''0''
   \<and> normalizeValue ''rgb( 1 , 2 , 3 )'' ''color'' = ''rgb(1,2,3)''
   \<and> normalizeValue ''rgb(1,2,3)'' ''color'' = ''rgb(1,2,3)''"
  by code_simp

text \<open>A bare decimal gets two fraction digits, and the result is a fixed point.\<close>

lemma bit_length_small: "bit_length 5 = 3" "bit_length 10 = 4" "bit_length 50 = 6"
  "bit_length 100 = 7"
  by (simp_all add: bit_length.simps)

lemma half_double:
  "to_double 5 10 = Finite 4503599627370496 9007199254740992"
  "to_double 50 100 = Finite 4503599627370496 9007199254740992"
  by (simp_all add: to_double_def floor_log2_def bit_length_small round_half_even_def Let_def)

lemma half_fixed: "fixed2_digits 50 = ''0.50''"
  by (simp add: fixed2_digits_def show_nat.simps digit_char_def Let_def)

lemma normalizeValue_half:
  "normalizeValue ''.5'' p = ''0.50'' \<and> normalizeValue ''0.50'' p = ''0.50''"
proof -
  have d: "list_all is_digit []" "list_all is_digit ''5''" "list_all is_digit ''0''"
    "list_all is_digit ''50''"
    by (simp_all add: is_digit_def)
  have v: "digits_value ''5'' = 5" "digits_value ''050'' = 50"
    by (simp_all add: digits_value_def digit_val_def)
  note a = decimal_shape [OF d(1) d(2), simplified] and b = decimal_shape [OF d(3) d(4), simplified]
  have "normalizeValue ''.5'' p = ''0.50''"
    using a v by (simp add: normalizeValue_def Let_def half_double half_fixed)
  moreover have "normalizeValue ''0.50'' p = ''0.50''"
    using b v by (simp add: normalizeValue_def Let_def half_double half_fixed)
  ultimately show ?thesis by simp
qed

section \<open>Counts of removed \<open>display\<close> values\<close>

text \<open>
  Claim C6. The claim: an Added record of one direction is a Removed record of the other
  with the same key and the same occurrence count, suffix included. What the code does for
  \<open>display\<close>: \<open>handleDisplayChanges\<close> reads the count of a removed value in the counter of
  the new values, where it has no entry, so \<open>display: block\<close> on two rules is added with
  the suffix \<open>(2 elements)\<close> and removed without it. The sibling \<open>handleSpecialProperty\<close>
  reads the counter of the old values and keeps the suffix.
\<close>

theorem display_removal_loses_count:
  "compareDeclarations (Some plain_boxes) (Some block_boxes)
     = Inr [PropertyAdded ''display'' ''block'' (Some 2)]
   \<and> compareDeclarations (Some block_boxes) (Some plain_boxes)
     = Inr [PropertyRemoved ''display'' ''block'' None]
   \<and> compareDeclarations_text (Some plain_boxes) (Some block_boxes)
     = Inr [''Property added: display: block (2 elements)'']
   \<and> compareDeclarations_text (Some block_boxes) (Some plain_boxes)
     = Inr [''Property removed: display: block'']
   \<and> compareDeclarations_text (Some plain_boxes) (Some fixed_boxes)
     = Inr [''Property added: position: fixed (2 elements)'']
   \<and> compareDeclarations_text (Some fixed_boxes) (Some plain_boxes)
     = Inr [''Property removed: position: fixed (2 elements)'']"
  by code_simp

section \<open>The login scenario\<close>

lemma complexity_line_only_from_threshold:
  "complexity_line oldFunc newFunc \<in> set (compareFunctions oldFunc newFunc)
     \<longleftrightarrow> complexity newFunc > complexity oldFunc + 2"
  by (auto simp: compareFunctions_def complexity_line_def Let_def)


text \<open>
  Claim C3, as the claim states it: the details of the \<open>login\<close> scenario contain four
  items, one of them the complexity change from 1 to 3. On the code the details are three;
  the complexity line is not among them.
\<close>

theorem login_details_counterexample:
  "compareFunctions login_old login_new
     = [''Changed to async'', ''Added parameter: rememberMe (with default)'', ''Added API calls'']
   \<and> complexity_line login_old login_new \<notin> set (compareFunctions login_old login_new)"
  by code_simp

text \<open>
  Claim C3, amended. The function diff produces one \<open>Function login changed:\<close> record whose
  details are: changed to async, parameter \<open>rememberMe\<close> added with a default, and API
  calls added. A complexity line is part of the details of two functions exactly when the
  new complexity exceeds the old one by more than 2, so the change from 1 to 3 is not
  listed.
\<close>

theorem login_scenario_details:
  "diffFunctions [login_old] [login_new]
     = [''Function login changed:'',
        ''  '' @ branch_sign @ '' Changed to async'',
        ''  '' @ branch_sign @ '' Added parameter: rememberMe (with default)'',
        ''  '' @ branch_sign @ '' Added API calls'']
   \<and> (complexity_line oldFunc newFunc \<in> set (compareFunctions oldFunc newFunc)
        \<longleftrightarrow> complexity newFunc > complexity oldFunc + 2)"
proof
  show "diffFunctions [login_old] [login_new]
     = [''Function login changed:'',
        ''  '' @ branch_sign @ '' Changed to async'',
        ''  '' @ branch_sign @ '' Added parameter: rememberMe (with default)'',
        ''  '' @ branch_sign @ '' Added API calls'']"
    by code_simp
  show "complexity_line oldFunc newFunc \<in> set (compareFunctions oldFunc newFunc)
        \<longleftrightarrow> complexity newFunc > complexity oldFunc + 2"
    by (rule complexity_line_only_from_threshold)
qed


theorem login_scenario_details_witness:
  "complexity login_heavier > complexity login_old + 2
   \<and> complexity_line login_old login_heavier \<in> set (compareFunctions login_old login_heavier)"
proof -
  have h: "complexity login_heavier > complexity login_old + 2"
    by (simp add: login_heavier_def login_old_def login_new_def)
  with login_scenario_details [of login_old login_heavier] show ?thesis by blast
qed

section \<open>Diffing a model against itself\<close>

lemma compareFunctions_self: "compareFunctions f f = []"
  by (simp add: compareFunctions_def)

lemma find_key_distinct:
  "distinct (map k M) \<Longrightarrow> f \<in> set M \<Longrightarrow> find (\<lambda>h. k h = k f) M = Some f"
  by (induction M) auto

lemma find_key_exists: "f \<in> set M \<Longrightarrow> \<exists>g. find (\<lambda>h. k h = k f) M = Some g"
  by (cases "find (\<lambda>h. k h = k f) M") (auto simp: find_None_iff)

lemma find_key_not_None: "f \<in> set M \<Longrightarrow> find (\<lambda>h. k h = k f) M \<noteq> None"
  using find_key_exists [of f M k] by auto

lemma concat_map_Nil: "concat (map F xs) = [] \<longleftrightarrow> (\<forall>x\<in>set xs. F x = [])"
  by (induction xs) auto

lemma new_function_changes_empty:
  "f \<in> set M \<Longrightarrow>
     new_function_changes M f = []
       \<longleftrightarrow> (\<forall>g. find (\<lambda>h. name h = name f) M = Some g \<longrightarrow> compareFunctions g f = [])"
proof -
  assume "f \<in> set M"
  then obtain g where g: "find (\<lambda>h. name h = name f) M = Some g"
    using find_key_exists [where k = name] by blast
  show ?thesis
    by (cases "compareFunctions g f = []") (simp_all add: new_function_changes_def g Let_def)
qed

lemma diffFunctions_self_iff:
  "diffFunctions M M = []
     \<longleftrightarrow> (\<forall>f\<in>set M. \<forall>g. find (\<lambda>h. name h = name f) M = Some g \<longrightarrow> compareFunctions g f = [])"
proof -
  have removed: "concat (map (\<lambda>oldFunc. if find (\<lambda>f. name f = name oldFunc) M = None
                              then [''Removed function: '' @ name oldFunc] else []) M) = []"
    by (simp add: concat_map_Nil find_key_not_None)
  have "diffFunctions M M = [] \<longleftrightarrow> (\<forall>f\<in>set M. new_function_changes M f = [])"
    by (simp only: diffFunctions_def removed append_Nil2 concat_map_Nil)
  then show ?thesis by (simp add: new_function_changes_empty)
qed

lemma diffFunctions_self_distinct: "distinct (map name M) \<Longrightarrow> diffFunctions M M = []"
  by (simp add: diffFunctions_self_iff find_key_distinct compareFunctions_self)

text \<open>Two classes show no method change exactly when they have the same method names.\<close>

lemma compareClassMethods_empty:
  "compareClassMethods g c = []
     \<longleftrightarrow> method_name ` set (methods g) = method_name ` set (methods c)"
proof -
  have "compareClassMethods g c = []
      \<longleftrightarrow> (\<forall>x\<in>set (methods c). \<exists>y\<in>set (methods g). method_name y = method_name x)
        \<and> (\<forall>x\<in>set (methods g). \<exists>y\<in>set (methods c). method_name y = method_name x)"
    by (auto simp: compareClassMethods_def filter_empty_conv find_None_iff)
  also have "\<dots> \<longleftrightarrow> method_name ` set (methods g) \<subseteq> method_name ` set (methods c)
        \<and> method_name ` set (methods c) \<subseteq> method_name ` set (methods g)"
    by (auto simp: image_iff subset_iff) metis+
  finally show ?thesis by blast
qed

lemma compareClassMethods_self: "compareClassMethods c c = []"
  by (simp add: compareClassMethods_empty)

lemma new_class_changes_empty:
  "c \<in> set M \<Longrightarrow>
     new_class_changes M c = []
       \<longleftrightarrow> (\<forall>g. find (\<lambda>h. class_name h = class_name c) M = Some g
                 \<longrightarrow> compareClassMethods g c = [])"
proof -
  assume "c \<in> set M"
  then obtain g where g: "find (\<lambda>h. class_name h = class_name c) M = Some g"
    using find_key_exists [where k = class_name] by blast
  show ?thesis
    by (cases "compareClassMethods g c = []") (simp_all add: new_class_changes_def g Let_def)
qed

lemma diffClasses_self_iff:
  "diffClasses M M = []
     \<longleftrightarrow> (\<forall>c\<in>set M. \<forall>g. find (\<lambda>h. class_name h = class_name c) M = Some g
                           \<longrightarrow> compareClassMethods g c = [])"
proof -
  have removed: "concat (map (\<lambda>oldClass.
        if find (\<lambda>c. class_name c = class_name oldClass) M = None
        then [''Removed class: '' @ class_name oldClass] else []) M) = []"
    by (simp add: concat_map_Nil find_key_not_None)
  have "diffClasses M M = [] \<longleftrightarrow> (\<forall>c\<in>set M. new_class_changes M c = [])"
    by (simp only: diffClasses_def removed append_Nil2 concat_map_Nil)
  then show ?thesis by (simp add: new_class_changes_empty)
qed

lemma new_variable_changes_empty:
  "v \<in> set M \<Longrightarrow>
     new_variable_changes M v = []
       \<longleftrightarrow> (\<forall>g. find (\<lambda>h. var_name h = var_name v) M = Some g \<longrightarrow> kind g = kind v)"
proof -
  assume "v \<in> set M"
  then obtain g where g: "find (\<lambda>h. var_name h = var_name v) M = Some g"
    using find_key_exists [where k = var_name] by blast
  show ?thesis by (simp add: new_variable_changes_def g)
qed

lemma diffVariables_self_iff:
  "diffVariables M M = []
     \<longleftrightarrow> (\<forall>v\<in>set M. \<forall>g. find (\<lambda>h. var_name h = var_name v) M = Some g
                           \<longrightarrow> kind g = kind v)"
  by (simp add: diffVariables_def concat_map_Nil new_variable_changes_empty)

lemma diffImports_self: "diffImports M M = []"
  by (simp add: diffImports_def filter_empty_conv find_key_not_None)

lemma diffExports_self: "diffExports M M = []"
  by (simp add: diffExports_def split: option.splits)

lemma diffReactComponents_self: "diffReactComponents M M = []"
  by (simp add: diffReactComponents_def filter_empty_conv find_key_not_None)

lemma diffHooks_self: "diffHooks M M = []"
  by (simp add: diffHooks_def hook_changes_def concat_map_Nil)

lemma performSemanticDiff_self_iff:
  "performSemanticDiff S S = []
     \<longleftrightarrow> (\<forall>f\<in>set (all_functions S). \<forall>g.
            find (\<lambda>h. name h = name f) (all_functions S) = Some g \<longrightarrow> compareFunctions g f = [])
       \<and> (\<forall>c\<in>set (all_classes S). \<forall>g.
            find (\<lambda>h. class_name h = class_name c) (all_classes S) = Some g
              \<longrightarrow> method_name ` set (methods g) = method_name ` set (methods c))
       \<and> (\<forall>v\<in>set (all_variables S). \<forall>g.
            find (\<lambda>h. var_name h = var_name v) (all_variables S) = Some g \<longrightarrow> kind g = kind v)"
  by (simp add: performSemanticDiff_def diffImports_self diffExports_self
        diffReactComponents_self diffHooks_self diffFunctions_self_iff diffClasses_self_iff
        diffVariables_self_iff compareClassMethods_empty)

lemma performSemanticDiff_self_distinct:
  assumes "distinct (map name (all_functions S))"
    and "distinct (map class_name (all_classes S))"
    and "distinct (map var_name (all_variables S))"
  shows "performSemanticDiff S S = []"
  unfolding performSemanticDiff_self_iff
  using assms by (simp add: find_key_distinct compareFunctions_self)

lemma set_uniq [simp]: "set (uniq xs) = set xs"
  by (induction xs) auto

lemma distinct_uniq [simp]: "distinct (uniq xs)"
  by (induction xs) auto

lemma compareSelectors_self: "compareSelectorsWithContext x x = []"
  by (auto simp: compareSelectorsWithContext_def Let_def has_def filter_empty_conv)

lemma compareAtRules_self: "compareAtRules x x = []"
  by (simp add: compareAtRules_def Let_def)

lemma handleDisplayChanges_self: "handleDisplayChanges u u c ast = []"
  by (simp add: handleDisplayChanges_def)

lemma handleSpecialProperty_self: "handleSpecialProperty p u u c c' = []"
  by (simp add: handleSpecialProperty_def)

lemma declaration_changes_self: "declaration_changes ast t t p = []"
  by (simp add: declaration_changes_def Let_def handleDisplayChanges_self
        handleSpecialProperty_self)

lemma raw_changes_self: "raw_changes t t p = []"
  by (simp add: raw_changes_def Let_def)

lemma compare_tables_self:
  "compare_tables (Some a) (Some a) t t = detectDuplicateProperties a"
  by (simp add: compare_tables_def Let_def declaration_changes_self analyzeAnimations_def
        analyzeTypography_def raw_changes_self)

lemma compareDeclarations_self:
  "compareDeclarations (Some a) (Some a) =
     (if names_prototype_member a then Inl TypeError else Inr (detectDuplicateProperties a))"
  by (simp add: compareDeclarations_def extractDeclarations_def compare_tables_self)

lemma detectDuplicateProperties_warnings:
  "r \<in> set (detectDuplicateProperties a) \<Longrightarrow> \<exists>p s n. r = OverrideDetected p s n"
  by (auto simp: detectDuplicateProperties_def rule_overrides_def Let_def split: if_splits)

text \<open>
  Claim C5, as the claim states it: a model with two functions of one name and different
  parameter lists, diffed against itself, yields no record. On the code it yields a
  \<open>changed\<close> record: the second function is compared with the first one of its name. The
  same holds for two variables of one name (or two destructuring declarations, whose names
  are both undefined) with different kinds.
\<close>

theorem self_diff_same_name_counterexample:
  "diffFunctions [dup_a, dup_b] [dup_a, dup_b]
     = [''Function helper changed:'',
        ''  '' @ branch_sign @ '' Added parameter: b'',
        ''  '' @ branch_sign @ '' Removed parameter: a'']
   \<and> performSemanticDiff same_name_functions same_name_functions
     = [''Function helper changed:'',
        ''  '' @ branch_sign @ '' Added parameter: b'',
        ''  '' @ branch_sign @ '' Removed parameter: a'']
   \<and> performSemanticDiff same_name_variables same_name_variables
     = [''Changed x from '' @ [CHR 0x27] @ ''const'' @ [CHR 0x27] @ '' to ''
          @ [CHR 0x27] @ ''let'' @ [CHR 0x27]]
   \<and> performSemanticDiff two_patterns two_patterns
     = [''Changed undefined from '' @ [CHR 0x27] @ ''const'' @ [CHR 0x27] @ '' to ''
          @ [CHR 0x27] @ ''let'' @ [CHR 0x27]]"
  by code_simp

text \<open>
  Claim C5, amended. Diffing an extracted code structure against itself with
  \<open>performSemanticDiff\<close> yields no record exactly when every function shows no field-level
  difference against the first function of its name, every class has the same method
  names as the first class of its name, and every variable has the kind of the first
  variable of its name; in particular when the names of the functions, of the classes and
  of the variables are pairwise distinct. (Imports, exports, components and hook calls
  never give a record in a self-diff.) For every stylesheet tree, duplicates included, the
  selector diff and the at-rule diff against itself are empty; the declaration diff
  against itself throws a \<open>TypeError\<close> when a declaration of the tree is named like a
  member of \<open>Object.prototype\<close>, and otherwise consists of the override warnings of the tree
  alone: no added, removed or changed record.
\<close>

theorem self_diff_reports_no_change:
  "(performSemanticDiff S S = []
      \<longleftrightarrow> (\<forall>f\<in>set (all_functions S). \<forall>g.
             find (\<lambda>h. name h = name f) (all_functions S) = Some g
               \<longrightarrow> compareFunctions g f = [])
        \<and> (\<forall>c\<in>set (all_classes S). \<forall>g.
             find (\<lambda>h. class_name h = class_name c) (all_classes S) = Some g
               \<longrightarrow> method_name ` set (methods g) = method_name ` set (methods c))
        \<and> (\<forall>v\<in>set (all_variables S). \<forall>g.
             find (\<lambda>h. var_name h = var_name v) (all_variables S) = Some g
               \<longrightarrow> kind g = kind v))
   \<and> (distinct (map name (all_functions S)) \<and> distinct (map class_name (all_classes S))
        \<and> distinct (map var_name (all_variables S))
      \<longrightarrow> performSemanticDiff S S = [])
   \<and> (diffFunctions M M = []
      \<longleftrightarrow> (\<forall>f\<in>set M. \<forall>g. find (\<lambda>h. name h = name f) M = Some g
                               \<longrightarrow> compareFunctions g f = []))
   \<and> (distinct (map name M) \<longrightarrow> diffFunctions M M = [])
   \<and> compareSelectorsWithContext (Some a) (Some a) = []
   \<and> compareAtRules (Some a) (Some a) = []
   \<and> compareDeclarations (Some a) (Some a)
       = (if names_prototype_member a then Inl TypeError
          else Inr (detectDuplicateProperties a))
   \<and> (\<forall>r\<in>set (detectDuplicateProperties a). \<exists>p s n. r = OverrideDetected p s n)"
proof (intro conjI)
  show "performSemanticDiff S S = []
      \<longleftrightarrow> (\<forall>f\<in>set (all_functions S). \<forall>g.
             find (\<lambda>h. name h = name f) (all_functions S) = Some g
               \<longrightarrow> compareFunctions g f = [])
        \<and> (\<forall>c\<in>set (all_classes S). \<forall>g.
             find (\<lambda>h. class_name h = class_name c) (all_classes S) = Some g
               \<longrightarrow> method_name ` set (methods g) = method_name ` set (methods c))
        \<and> (\<forall>v\<in>set (all_variables S). \<forall>g.
             find (\<lambda>h. var_name h = var_name v) (all_variables S) = Some g
               \<longrightarrow> kind g = kind v)"
    by (rule performSemanticDiff_self_iff)
  show "distinct (map name (all_functions S)) \<and> distinct (map class_name (all_classes S))
        \<and> distinct (map var_name (all_variables S))
      \<longrightarrow> performSemanticDiff S S = []"
    by (simp add: performSemanticDiff_self_distinct)
  show "diffFunctions M M = []
      \<longleftrightarrow> (\<forall>f\<in>set M. \<forall>g. find (\<lambda>h. name h = name f) M = Some g
                               \<longrightarrow> compareFunctions g f = [])"
    by (rule diffFunctions_self_iff)
  show "distinct (map name M) \<longrightarrow> diffFunctions M M = []"
    by (simp add: diffFunctions_self_distinct)
  show "compareSelectorsWithContext (Some a) (Some a) = []"
    by (rule compareSelectors_self)
  show "compareAtRules (Some a) (Some a) = []"
    by (rule compareAtRules_self)
  show "compareDeclarations (Some a) (Some a)
       = (if names_prototype_member a then Inl TypeError
          else Inr (detectDuplicateProperties a))"
    by (rule compareDeclarations_self)
  show "\<forall>r\<in>set (detectDuplicateProperties a). \<exists>p s n. r = OverrideDetected p s n"
    using detectDuplicateProperties_warnings by blast
qed

theorem self_diff_reports_no_change_witness:
  "distinct (map name (all_functions tidy_module))
   \<and> distinct (map class_name (all_classes tidy_module))
   \<and> distinct (map var_name (all_variables tidy_module))
   \<and> distinct (map name [dup_a, login_old])
   \<and> performSemanticDiff tidy_module tidy_module = []
   \<and> diffFunctions [dup_a, login_old] [dup_a, login_old] = []
   \<and> \<not> names_prototype_member block_boxes
   \<and> compareSelectorsWithContext (Some block_boxes) (Some block_boxes) = []
   \<and> compareDeclarations (Some block_boxes) (Some block_boxes)
       = Inr (detectDuplicateProperties block_boxes)
   \<and> names_prototype_member constructor_sheet
   \<and> compareDeclarations (Some constructor_sheet) (Some constructor_sheet) = Inl TypeError"
proof -
  have h: "distinct (map name (all_functions tidy_module))"
    "distinct (map class_name (all_classes tidy_module))"
    "distinct (map var_name (all_variables tidy_module))"
    "distinct (map name [dup_a, login_old])"
    by (simp_all add: tidy_module_def dup_a_def login_old_def)
  have p: "\<not> names_prototype_member block_boxes" "names_prototype_member constructor_sheet"
    by code_simp+
  from self_diff_reports_no_change [of tidy_module "[dup_a, login_old]" block_boxes] h p
  have a: "performSemanticDiff tidy_module tidy_module = []"
    "diffFunctions [dup_a, login_old] [dup_a, login_old] = []"
    "compareSelectorsWithContext (Some block_boxes) (Some block_boxes) = []"
    "compareDeclarations (Some block_boxes) (Some block_boxes)
       = Inr (detectDuplicateProperties block_boxes)"
    by simp_all
  from self_diff_reports_no_change [of tidy_module "[dup_a, login_old]" constructor_sheet] p
  have b: "compareDeclarations (Some constructor_sheet) (Some constructor_sheet) = Inl TypeError"
    by simp
  from h p a b show ?thesis by blast
qed

section \<open>The one-to-one collapse of a value change\<close>

lemma keys_push_value: "fst ` set (push_value p v t) = insert p (fst ` set t)"
  by (induction p v t rule: push_value.induct) auto

lemma keys_foldl_push:
  "fst ` set (foldl (\<lambda>t d. push_value (fst d) (snd d) t) t ds) = fst ` set t \<union> fst ` set ds"
  by (induction ds arbitrary: t) (auto simp: keys_push_value)

lemma keys_collect: "fst ` set (collect ds) = fst ` set ds"
  by (simp add: collect_def keys_foldl_push)

lemma set_object_keys [simp]: "set (object_keys t) = fst ` set t"
  by (auto simp: object_keys_def)

lemma values_of_key: "values_of t p \<noteq> [] \<Longrightarrow> p \<in> fst ` set t"
  by (auto simp: values_of_def split: option.splits dest: map_of_SomeD intro: rev_image_eqI)

lemma filter_concat_single:
  assumes "distinct xs" and "p \<in> set xs"
    and "\<And>q. q \<in> set xs \<Longrightarrow> q \<noteq> p \<Longrightarrow> filter P (F q) = []"
  shows "filter P (concat (map F xs)) = filter P (F p)"
  using assms
proof (induction xs)
  case Nil
  then show ?case by simp
next
  case (Cons a xs)
  show ?case
  proof (cases "a = p")
    case True
    then have "p \<notin> set xs" using Cons.prems(1) by simp
    then have "\<forall>q\<in>set xs. filter P (F q) = []" using Cons.prems(3) by auto
    then have "filter P (concat (map F xs)) = []"
      by (induction xs) simp_all
    with True show ?thesis by simp
  next
    case False
    then have "filter P (F a) = []" using Cons.prems(3) by simp
    moreover have "filter P (concat (map F xs)) = filter P (F p)"
      using Cons False by auto
    ultimately show ?thesis by simp
  qed
qed


lemma flexbox_details_no_prop: "r \<in> set (analyzeFlexboxProperties a) \<Longrightarrow> change_prop r = None"
  by (auto simp: analyzeFlexboxProperties_def truthy_detail_def Let_def
           split: if_splits option.splits)

lemma grid_details_no_prop: "r \<in> set (analyzeGridProperties a) \<Longrightarrow> change_prop r = None"
  by (auto simp: analyzeGridProperties_def grid_details_def Let_def split: if_splits)

lemma layout_details_no_prop:
  "r \<in> set (layout_details analyzeFlexboxProperties ast) \<Longrightarrow> change_prop r = None"
  "r \<in> set (layout_details analyzeGridProperties ast) \<Longrightarrow> change_prop r = None"
  by (auto simp: layout_details_def flexbox_details_no_prop grid_details_no_prop
           split: option.splits)

lemma display_added_props:
  "r \<in> set (display_added c ast v) \<Longrightarrow> change_prop r = Some ''display'' \<or> change_prop r = None"
  unfolding display_added_def
  by (auto split: if_splits dest: layout_details_no_prop)

lemma handleDisplayChanges_collapse:
  "length o' = 1 \<and> length n = 1 \<and> hd o' \<noteq> hd n \<Longrightarrow>
     handleDisplayChanges n o' c ast =
       (if hd n = ''flex'' then
           ChangedToFlexbox (hd o') # layout_details analyzeFlexboxProperties ast
         else if hd n = ''grid'' then
           ChangedToGrid (hd o') # layout_details analyzeGridProperties ast
         else [PropertyChanged ''display'' (hd o') (hd n) None])"
  unfolding handleDisplayChanges_def by (rule if_P)

lemma handleDisplayChanges_other:
  "\<not> (length o' = 1 \<and> length n = 1 \<and> hd o' \<noteq> hd n) \<Longrightarrow>
     handleDisplayChanges n o' c ast =
       concat (map (display_added c ast) (filter (\<lambda>v. v \<notin> set o') n))
        @ map (\<lambda>v. PropertyRemoved ''display'' v (count_of c v))
            (filter (\<lambda>v. v \<notin> set n) o')"
  unfolding handleDisplayChanges_def by (rule if_not_P)

lemma handleDisplayChanges_props:
  assumes "r \<in> set (handleDisplayChanges n o' c ast)"
  shows "change_prop r = Some ''display'' \<or> change_prop r = None"
proof (cases "length o' = 1 \<and> length n = 1 \<and> hd o' \<noteq> hd n")
  case True
  from assms have "r \<in> set (if hd n = ''flex'' then
           ChangedToFlexbox (hd o') # layout_details analyzeFlexboxProperties ast
         else if hd n = ''grid'' then
           ChangedToGrid (hd o') # layout_details analyzeGridProperties ast
         else [PropertyChanged ''display'' (hd o') (hd n) None])"
    by (simp only: handleDisplayChanges_collapse [OF True])
  then show ?thesis
    by (auto split: if_splits dest: layout_details_no_prop)
next
  case False
  from assms have "r \<in> set (concat (map (display_added c ast) (filter (\<lambda>v. v \<notin> set o') n))
        @ map (\<lambda>v. PropertyRemoved ''display'' v (count_of c v))
            (filter (\<lambda>v. v \<notin> set n) o'))"
    by (simp only: handleDisplayChanges_other [OF False])
  then have "(\<exists>v. r \<in> set (display_added c ast v))
      \<or> (\<exists>v. r = PropertyRemoved ''display'' v (count_of c v))"
    by auto
  then show ?thesis
    by (auto dest: display_added_props)
qed

lemma handleSpecialProperty_props:
  "r \<in> set (handleSpecialProperty p n o' c c') \<Longrightarrow> change_prop r = Some p"
  by (auto simp: handleSpecialProperty_def split: if_splits)

lemma raw_changes_props: "r \<in> set (raw_changes nt ot q) \<Longrightarrow> change_prop r = Some q"
  by (auto simp: raw_changes_def Let_def split: if_splits)

lemma declaration_changes_props:
  assumes "r \<in> set (declaration_changes ast ot nt q)"
  shows "change_prop r = Some q \<or> change_prop r = None"
proof -
  consider (anim) "is_animation_prop q"
    | (display) "\<not> is_animation_prop q" "q = ''display''"
    | (special) "\<not> is_animation_prop q" "q \<noteq> ''display''"
        "q \<in> set [''position'', ''visibility'', ''opacity'', ''z-index'']"
    | (plain) "\<not> is_animation_prop q" "q \<noteq> ''display''"
        "q \<notin> set [''position'', ''visibility'', ''opacity'', ''z-index'']"
    by blast
  then show ?thesis
  proof cases
    case anim
    with assms show ?thesis by (simp add: declaration_changes_def)
  next
    case display
    with assms show ?thesis
      by (auto simp: declaration_changes_def Let_def dest: handleDisplayChanges_props)
  next
    case special
    with assms show ?thesis
      by (auto simp: declaration_changes_def Let_def dest: handleSpecialProperty_props)
  next
    case plain
    with assms show ?thesis
      by (auto simp: declaration_changes_def Let_def split: if_splits)
  qed
qed

lemma analyzeAnimations_props:
  assumes "r \<in> set (analyzeAnimations a old)"
  shows "\<exists>q. change_prop r = Some q \<and> is_animation_prop q"
proof -
  define nt where "nt = extractAnimationProps a"
  define ot where "ot = (case old of Some b \<Rightarrow> extractAnimationProps b | None \<Rightarrow> [])"
  have eq: "analyzeAnimations a old
      = concat (map (raw_changes nt ot) (uniq (object_keys nt @ object_keys ot)))"
    by (simp add: analyzeAnimations_def Let_def nt_def ot_def)
  from assms obtain q where q: "q \<in> fst ` set nt \<union> fst ` set ot" "r \<in> set (raw_changes nt ot q)"
    unfolding eq by auto
  have "\<And>b. fst ` set (extractAnimationProps b) \<subseteq> {q. is_animation_prop q}"
    by (auto simp: extractAnimationProps_def keys_collect)
  then have "fst ` set nt \<subseteq> {q. is_animation_prop q}" "fst ` set ot \<subseteq> {q. is_animation_prop q}"
    by (auto simp: nt_def ot_def split: option.splits)
  with q(1) have "is_animation_prop q" by auto
  with q(2) show ?thesis by (auto dest: raw_changes_props)
qed

lemma analyzeTypography_props:
  assumes "r \<in> set (analyzeTypography a old)"
  shows "\<exists>q. change_prop r = Some q \<and> q \<in> set typographyProps"
proof -
  define nt where "nt = extractTypographyProps a typographyProps"
  define ot where "ot = (case old of Some b \<Rightarrow> extractTypographyProps b typographyProps
                         | None \<Rightarrow> [])"
  have eq: "analyzeTypography a old = concat (map (raw_changes nt ot) (object_keys nt))"
    by (simp add: analyzeTypography_def Let_def nt_def ot_def)
  from assms obtain q where q: "q \<in> fst ` set nt" "r \<in> set (raw_changes nt ot q)"
    unfolding eq by auto
  have "fst ` set nt \<subseteq> set typographyProps"
    by (auto simp: nt_def extractTypographyProps_def keys_collect)
  with q(1) have "q \<in> set typographyProps" by auto
  with q(2) show ?thesis by (auto dest: raw_changes_props)
qed

lemma filter_about_details:
  "(\<And>r. r \<in> set ds \<Longrightarrow> change_prop r = None) \<Longrightarrow> filter (about p) ds = []"
  by (auto simp: filter_empty_conv about_def)

lemma collapse_record:
  assumes x: "uniq (map (\<lambda>v. normalizeValue v p) (values_of ot p)) = [x]"
    and y: "uniq (map (\<lambda>v. normalizeValue v p) (values_of nt p)) = [y]"
    and ne: "x \<noteq> y" and na: "\<not> is_animation_prop p"
  shows "\<exists>r. filter (about p) (declaration_changes ast ot nt p) = [r]
            \<and> changed_values r = Some (x, y)"
proof -
  consider (display) "p = ''display''"
    | (special) "p \<noteq> ''display''"
        "p \<in> set [''position'', ''visibility'', ''opacity'', ''z-index'']"
    | (plain) "p \<noteq> ''display''"
        "p \<notin> set [''position'', ''visibility'', ''opacity'', ''z-index'']"
    by blast
  then show ?thesis
  proof cases
    case display
    have c: "length [x] = 1 \<and> length [y] = 1 \<and> hd [x] \<noteq> hd [y]" using ne by simp
    have d: "declaration_changes ast ot nt p
        = handleDisplayChanges [y] [x] (count_map (map (\<lambda>v. normalizeValue v p) (values_of nt p))) ast"
      using x y na display by (simp add: declaration_changes_def Let_def)
    have f: "filter (about p) (layout_details analyzeFlexboxProperties ast) = []"
      "filter (about p) (layout_details analyzeGridProperties ast) = []"
      by (auto intro!: filter_about_details dest: layout_details_no_prop)
    show ?thesis
      unfolding d handleDisplayChanges_collapse [OF c]
      using f display by (auto simp: about_def)
  next
    case special
    then have "declaration_changes ast ot nt p = [PropertyChanged p x y None]"
      using x y ne na by (auto simp: declaration_changes_def Let_def handleSpecialProperty_def)
    then show ?thesis by (simp add: about_def)
  next
    case plain
    then have "\<exists>c. declaration_changes ast ot nt p = [PropertyChanged p x y c]"
      using x y ne na by (auto simp: declaration_changes_def Let_def)
    then show ?thesis by (auto simp: about_def)
  qed
qed

text \<open>
  Claim C2. The claim: a property with exactly one distinct normalized value on each side,
  the two different, gets exactly one changed record and no added or removed record; this
  is so for \<open>color: red\<close> against \<open>color: blue\<close>. What the code does for the eight
  typography properties: the main loop reports the change and \<open>analyzeTypography\<close> reports
  it again, so \<open>font-size: 12px\<close> against \<open>font-size: 14px\<close> gets two changed records.
  (The main loop skips the animation properties to keep \<open>analyzeAnimations\<close> from
  reporting twice; the typography properties are not skipped.) The older variant of the
  declaration diff reports the same substitution of \<open>color\<close> as an addition, a removal and
  a change.
\<close>

theorem typography_change_reported_twice:
  "uniq (normalized_values (Some small_font) ''font-size'') = [''12px'']
   \<and> uniq (normalized_values (Some large_font) ''font-size'') = [''14px'']
   \<and> (\<exists>cs. compareDeclarations (Some small_font) (Some large_font) = Inr cs
          \<and> cs = [PropertyChanged ''font-size'' ''12px'' ''14px'' (Some 1),
                    PropertyChanged ''color'' ''red'' ''blue'' (Some 1),
                    PropertyChanged ''font-size'' ''12px'' ''14px'' None]
          \<and> filter (about ''font-size'') cs
              = [PropertyChanged ''font-size'' ''12px'' ''14px'' (Some 1),
                 PropertyChanged ''font-size'' ''12px'' ''14px'' None]
          \<and> map render (filter (about ''font-size'') cs)
              = [''Property changed: font-size from 12px '' @ arrow @ '' 14px'',
                 ''Property changed: font-size from 12px '' @ arrow @ '' 14px'']
          \<and> map render (filter (about ''color'') cs)
              = [''Property changed: color from red '' @ arrow @ '' blue''])
   \<and> compareDeclarations_text (Some small_font) (Some large_font)
       = Inr [''Property changed: font-size from 12px '' @ arrow @ '' 14px'',
              ''Property changed: color from red '' @ arrow @ '' blue'',
              ''Property changed: font-size from 12px '' @ arrow @ '' 14px'']
   \<and> standard_property_changes_old ''color''
         [normalizeValue ''blue'' ''color''] [normalizeValue ''red'' ''color'']
       = [''Property added: color: blue'', ''Property removed: color: red'',
          ''Property changed: color from red '' @ arrow @ '' blue'']"
proof -
  let ?cs = "[PropertyChanged ''font-size'' ''12px'' ''14px'' (Some 1),
              PropertyChanged ''color'' ''red'' ''blue'' (Some 1),
              PropertyChanged ''font-size'' ''12px'' ''14px'' None]"
  have n1: "uniq (normalized_values (Some small_font) ''font-size'') = [''12px'']"
    by code_simp
  have n2: "uniq (normalized_values (Some large_font) ''font-size'') = [''14px'']"
    by code_simp
  have e: "compareDeclarations (Some small_font) (Some large_font) = Inr ?cs"
    by code_simp
  have f1: "filter (about ''font-size'') ?cs
      = [PropertyChanged ''font-size'' ''12px'' ''14px'' (Some 1),
         PropertyChanged ''font-size'' ''12px'' ''14px'' None]"
    by code_simp
  have f2: "map render (filter (about ''font-size'') ?cs)
      = [''Property changed: font-size from 12px '' @ arrow @ '' 14px'',
         ''Property changed: font-size from 12px '' @ arrow @ '' 14px'']"
    by code_simp
  have f3: "map render (filter (about ''color'') ?cs)
      = [''Property changed: color from red '' @ arrow @ '' blue'']"
    by code_simp
  have t: "compareDeclarations_text (Some small_font) (Some large_font)
       = Inr [''Property changed: font-size from 12px '' @ arrow @ '' 14px'',
              ''Property changed: color from red '' @ arrow @ '' blue'',
              ''Property changed: font-size from 12px '' @ arrow @ '' 14px'']"
    by code_simp
  have o: "standard_property_changes_old ''color''
         [normalizeValue ''blue'' ''color''] [normalizeValue ''red'' ''color'']
       = [''Property added: color: blue'', ''Property removed: color: red'',
          ''Property changed: color from red '' @ arrow @ '' blue'']"
    by code_simp
  have "\<exists>cs. compareDeclarations (Some small_font) (Some large_font) = Inr cs
          \<and> cs = ?cs
          \<and> filter (about ''font-size'') cs
              = [PropertyChanged ''font-size'' ''12px'' ''14px'' (Some 1),
                 PropertyChanged ''font-size'' ''12px'' ''14px'' None]
          \<and> map render (filter (about ''font-size'') cs)
              = [''Property changed: font-size from 12px '' @ arrow @ '' 14px'',
                 ''Property changed: font-size from 12px '' @ arrow @ '' 14px'']
          \<and> map render (filter (about ''color'') cs)
              = [''Property changed: color from red '' @ arrow @ '' blue'']"
    by (intro exI [of _ ?cs] conjI) (rule e refl f1 f2 f3)+
  then show ?thesis
    by (intro conjI) (rule n1 n2 t o | assumption)+
qed

text \<open>
  Where the collapse holds: for every property outside the animation family and outside
  the typography list, one distinct normalized value on each side and the two different
  give exactly one record of that property, and it is a changed record from the old to the
  new value.
\<close>

lemma compareDeclarations_error: "compareDeclarations old new = Inl e \<Longrightarrow> e = TypeError"
  by (auto simp: compareDeclarations_def extractDeclarations_def
        split: option.splits sum.splits if_splits)

lemma compareDeclarations_returns:
  assumes "\<And>a. old = Some a \<Longrightarrow> \<not> names_prototype_member a"
    and "\<And>a. new = Some a \<Longrightarrow> \<not> names_prototype_member a"
  shows "compareDeclarations old new
     = Inr (compare_tables old new
              (case old of Some a \<Rightarrow> declaration_table a | None \<Rightarrow> [])
              (case new of Some a \<Rightarrow> declaration_table a | None \<Rightarrow> []))"
  using assms
  by (cases old; cases new) (simp_all add: compareDeclarations_def extractDeclarations_def)

lemma compareDeclarations_tables:
  assumes "compareDeclarations old new = Inr cs"
  shows "cs = compare_tables old new
              (case old of Some a \<Rightarrow> declaration_table a | None \<Rightarrow> [])
              (case new of Some a \<Rightarrow> declaration_table a | None \<Rightarrow> [])"
  using assms
  by (cases old; cases new)
     (auto simp: compareDeclarations_def extractDeclarations_def split: if_splits)

theorem one_to_one_collapse:
  assumes x: "uniq (normalized_values old p) = [x]"
    and y: "uniq (normalized_values new p) = [y]"
    and ne: "x \<noteq> y"
    and na: "\<not> is_animation_prop p" and nt: "p \<notin> set typographyProps"
    and ok: "compareDeclarations old new = Inr cs"
  shows "\<exists>r. filter (about p) cs = [r] \<and> changed_values r = Some (x, y)"
proof -
  define ot where "ot = (case old of Some a \<Rightarrow> declaration_table a | None \<Rightarrow> [])"
  define nt' where "nt' = (case new of Some a \<Rightarrow> declaration_table a | None \<Rightarrow> [])"
  define allProps where "allProps = uniq (object_keys ot @ object_keys nt')"
  have cs: "cs = compare_tables old new ot nt'"
    using compareDeclarations_tables [OF ok] by (simp add: ot_def nt'_def)
  have x': "uniq (map (\<lambda>v. normalizeValue v p) (values_of ot p)) = [x]"
    using x by (simp add: normalized_values_def ot_def)
  have y': "uniq (map (\<lambda>v. normalizeValue v p) (values_of nt' p)) = [y]"
    using y by (simp add: normalized_values_def nt'_def)
  have "values_of ot p \<noteq> []" using x' by auto
  then have mem: "p \<in> set allProps"
    by (auto simp: allProps_def dest: values_of_key)
  have dist: "distinct allProps" by (simp add: allProps_def)
  have others: "\<And>q. q \<in> set allProps \<Longrightarrow> q \<noteq> p \<Longrightarrow>
      filter (about p) (declaration_changes new ot nt' q) = []"
    by (auto simp: filter_empty_conv about_def dest: declaration_changes_props)
  have main: "filter (about p) (concat (map (declaration_changes new ot nt') allProps))
      = filter (about p) (declaration_changes new ot nt' p)"
    by (rule filter_concat_single [OF dist mem others])
  have warn: "\<And>a. filter (about p) (detectDuplicateProperties a) = []"
    by (auto simp: filter_empty_conv about_def dest: detectDuplicateProperties_warnings)
  have tail: "\<And>a. filter (about p) (analyzeAnimations a old @ analyzeTypography a old) = []"
    using na nt
    by (auto simp: filter_empty_conv about_def
          dest: analyzeAnimations_props analyzeTypography_props)
  have "filter (about p) cs = filter (about p) (declaration_changes new ot nt' p)"
  proof (cases new)
    case None
    then show ?thesis
      using main by (simp add: cs compare_tables_def Let_def allProps_def)
  next
    case (Some a)
    have "cs = detectDuplicateProperties a
          @ concat (map (declaration_changes new ot nt') allProps)
          @ (analyzeAnimations a old @ analyzeTypography a old)"
      using Some by (simp add: cs compare_tables_def Let_def allProps_def)
    then show ?thesis using main warn [of a] tail [of a] by simp
  qed
  then show ?thesis using collapse_record [OF x' y' ne na, of new] by simp
qed

theorem one_to_one_collapse_witness:
  "uniq (normalized_values (Some small_font) ''color'') = [''red'']
   \<and> uniq (normalized_values (Some large_font) ''color'') = [''blue'']
   \<and> ''red'' \<noteq> ''blue'' \<and> \<not> is_animation_prop ''color'' \<and> ''color'' \<notin> set typographyProps
   \<and> compareDeclarations (Some small_font) (Some large_font)
       = Inr [PropertyChanged ''font-size'' ''12px'' ''14px'' (Some 1),
              PropertyChanged ''color'' ''red'' ''blue'' (Some 1),
              PropertyChanged ''font-size'' ''12px'' ''14px'' None]
   \<and> (\<exists>r. filter (about ''color'')
               [PropertyChanged ''font-size'' ''12px'' ''14px'' (Some 1),
                PropertyChanged ''color'' ''red'' ''blue'' (Some 1),
                PropertyChanged ''font-size'' ''12px'' ''14px'' None] = [r]
          \<and> changed_values r = Some (''red'', ''blue''))"
proof -
  have h: "uniq (normalized_values (Some small_font) ''color'') = [''red'']"
    "uniq (normalized_values (Some large_font) ''color'') = [''blue'']"
    "''red'' \<noteq> ''blue''" "\<not> is_animation_prop ''color''" "''color'' \<notin> set typographyProps"
    "compareDeclarations (Some small_font) (Some large_font)
       = Inr [PropertyChanged ''font-size'' ''12px'' ''14px'' (Some 1),
              PropertyChanged ''color'' ''red'' ''blue'' (Some 1),
              PropertyChanged ''font-size'' ''12px'' ''14px'' None]"
    by code_simp+
  from one_to_one_collapse [OF h] h show ?thesis by blast
qed

end
